theory Spec2Isabelle
  imports Main
begin

section \<open>The Kafka exporter charm (src/charm.py)\<close>

text \<open>
  A shallow embedding of \<^verbatim>\<open>KafkaExporterCharm\<close>. The charm object, the unit status it
  reports and the collaborators it talks to (the Pebble supervisor of the workload
  container, the kafka relation, the ingress library, the event it may defer, the clock it
  sleeps on) form one state record; every method is a function from that state to a result
  and the state it leaves behind. An exception is the result \<open>Inl\<close>, and the state comes
  back with it because the code mutates before it raises.

  Conventions of the embedding:
  \<^item> strings are byte lists; \<^verbatim>\<open>str.upper\<close> is modelled on the ASCII letters;
  \<^item> \<^verbatim>\<open>logger\<close> calls are not part of the state;
  \<^item> the retry counter is a natural number: it starts at 3 and is decremented only after
    a failed attempt, which needs it to be non-zero;
  \<^item> the only supervisor fault that is modelled is the one the charm imports and
    handles, \<^verbatim>\<open>ops.pebble.ChangeError\<close>, raised by \<^verbatim>\<open>replan\<close>; \<^verbatim>\<open>add_layer\<close> and
    \<^verbatim>\<open>stop\<close> are taken to succeed;
  \<^item> the framework hands every handler an event object; only \<^verbatim>\<open>_get_kafka_endpoint\<close> and
    \<^verbatim>\<open>_on_update_status\<close> are also called with none.
\<close>

subsection \<open>Data\<close>

text \<open>\<^verbatim>\<open>ops.model\<close> statuses; \<^verbatim>\<open>ActiveStatus()\<close> is \<open>ActiveStatus []\<close>.\<close>

datatype unit_status =
    ActiveStatus string
  | WaitingStatus string
  | BlockedStatus string
  | MaintenanceStatus string

text \<open>The events the charm observes (lines 79 to 85), by the name of their class.\<close>

datatype event =
    KafkaAvailableEvent
  | PebbleReadyEvent
  | ConfigChangedEvent
  | UpdateStatusEvent
  | RelationBrokenEvent

datatype exn = CharmError string | ChangeError string

text \<open>
  Modelled from the spec: the class \<^verbatim>\<open>CharmError\<close> of \<^verbatim>\<open>charms.osm_libs.v0.utils\<close> is not
  among the sources. The charm builds it from a message alone and reads \<^verbatim>\<open>.message\<close>
  and \<^verbatim>\<open>.status\<close>; by the spec every failure carries "a human-readable message that
  becomes the visible status reason" and "sets status \<open>\<Rightarrow>\<close> Blocked(message)".
\<close>

definition error_status :: "string \<Rightarrow> unit_status" where
  "error_status message = BlockedStatus message"

record service =
  svc_override :: string
  svc_summary :: string
  svc_command :: string
  svc_startup :: string

record tcp_check =
  chk_override :: string
  chk_level :: string
  chk_tcp_port :: nat

record layer =
  lyr_summary :: string
  lyr_description :: string
  lyr_services :: "(string \<times> service) list"
  lyr_checks :: "(string \<times> tcp_check) list"

text \<open>The calls the charm makes on the supervisor that change it, in order.\<close>

datatype call = AddLayer string layer | Replan | Stop string

text \<open>
  Modelled from the spec: the supervisor (\<^verbatim>\<open>ops\<close> container and Pebble) is a collaborator
  outside the sources, with the interface \<^verbatim>\<open>addLayer(name, spec, combine=true)\<close>,
  \<^verbatim>\<open>replan()\<close>, \<^verbatim>\<open>canConnect()\<close>, \<^verbatim>\<open>stopService(name)\<close>, \<^verbatim>\<open>getService(name)\<close>.
  Its state: whether its API answers, the merged plan, the services that run, the outcomes
  of the coming \<^verbatim>\<open>replan\<close> calls (\<open>Some m\<close>: \<^verbatim>\<open>ChangeError\<close> with message \<open>m\<close>; \<open>None\<close>,
  or no entry left: success), and the trace of the calls received.
\<close>

record container =
  reachable :: bool
  plan_services :: "(string \<times> service) list"
  plan_checks :: "(string \<times> tcp_check) list"
  running :: "string list"
  replan_results :: "string option list"
  calls :: "call list"

text \<open>
  \<^verbatim>\<open>self.model.config\<close>. \<^verbatim>\<open>log-level\<close> is read by subscript (the option has a default:
  the unit tests that never set it pass validation), the other two with \<^verbatim>\<open>.get\<close>.
\<close>

record charm_config =
  cfg_log_level :: string
  cfg_kafka_endpoint :: "string option"
  cfg_external_hostname :: "string option"

text \<open>
  Modelled from the spec: \<^verbatim>\<open>KafkaRequires\<close> (\<^verbatim>\<open>charms.kafka_k8s.v0.kafka\<close>) is not among the
  sources; its \<^verbatim>\<open>host\<close> and \<^verbatim>\<open>port\<close> properties give the "key-value pairs {host, port}
  published by a related unit", or \<^verbatim>\<open>None\<close>.
\<close>

record kafka_requires =
  host :: "string option"
  port :: "string option"

text \<open>
  The charm and what it acts on: the configuration and the relation it reads, the
  supervisor, its attribute \<^verbatim>\<open>kafka_endpoint\<close>, the unit status, the events deferred, the
  time slept, and the hostnames handed to \<^verbatim>\<open>ingress.update_config\<close>.
\<close>

record charm =
  config :: charm_config
  kafka_client :: kafka_requires
  container :: container
  kafka_endpoint :: "string option"
  status :: unit_status
  deferred :: "event list"
  slept :: nat
  ingress_updates :: "string option list"

text \<open>A method: the state in, the value returned or the exception raised, the state out.\<close>

type_synonym 'a action = "charm \<Rightarrow> (exn + 'a) \<times> charm"

definition ret :: "'a \<Rightarrow> 'a action" where
  "ret x s = (Inr x, s)"

definition raise_exn :: "exn \<Rightarrow> 'a action" where
  "raise_exn e s = (Inl e, s)"

definition and_then :: "'a action \<Rightarrow> ('a \<Rightarrow> 'b action) \<Rightarrow> 'b action" where
  "and_then m f s = (case m s of (Inl e, s') \<Rightarrow> (Inl e, s') | (Inr x, s') \<Rightarrow> f x s')"

text \<open>\<^verbatim>\<open>try: body except CharmError as error: handler(error.message)\<close>\<close>

definition try_except_CharmError :: "'a action \<Rightarrow> (string \<Rightarrow> 'a action) \<Rightarrow> 'a action" where
  "try_except_CharmError body handler s =
     (case body s of
        (Inl (CharmError message), s') \<Rightarrow> handler message s'
      | (Inl (ChangeError err), s') \<Rightarrow> (Inl (ChangeError err), s')
      | (Inr x, s') \<Rightarrow> (Inr x, s'))"

definition set_status :: "unit_status \<Rightarrow> unit action" where
  "set_status st s = (Inr (), s\<lparr>status := st\<rparr>)"

subsection \<open>Python strings\<close>

definition truthy :: "string option \<Rightarrow> bool" where
  "truthy v = (case v of None \<Rightarrow> False | Some x \<Rightarrow> x \<noteq> [])"

text \<open>\<^verbatim>\<open>f"{v}"\<close> of an optional string.\<close>

definition format_str :: "string option \<Rightarrow> string" where
  "format_str v = (case v of None \<Rightarrow> ''None'' | Some x \<Rightarrow> x)"

definition upper_char :: "char \<Rightarrow> char" where
  "upper_char c =
     (case map_of (zip ''abcdefghijklmnopqrstuvwxyz'' ''ABCDEFGHIJKLMNOPQRSTUVWXYZ'') c of
        None \<Rightarrow> c
      | Some u \<Rightarrow> u)"

definition upper :: "string \<Rightarrow> string" where
  "upper x = map upper_char x"

text \<open>\<^verbatim>\<open>str.split(sep)\<close> with a one-character separator: one part more than separators.\<close>

fun split :: "char \<Rightarrow> string \<Rightarrow> string list" where
  "split sep [] = [Nil]"
| "split sep (c # cs) =
     (if c = sep then [] # split sep cs
      else (case split sep cs of [] \<Rightarrow> [c] # [] | w # ws \<Rightarrow> (c # w) # ws))"

subsection \<open>The supervisor\<close>

definition PORT :: nat where
  "PORT = 9308"

definition pebble_service_name :: string where
  "pebble_service_name = ''kafka-exporter''"

definition container_name :: string where
  "container_name = ''kafka-exporter''"

text \<open>
  Modelled from the spec: merging a layer into the plan, as \<^verbatim>\<open>combine=true\<close> does when every
  entry of the layer overrides by "replace": an entry of the same name is replaced, a new
  one is appended.
\<close>

fun combine :: "(string \<times> 'a) list \<Rightarrow> (string \<times> 'a) list \<Rightarrow> (string \<times> 'a) list" where
  "combine plan [] = plan"
| "combine plan ((k, v) # kvs) =
     combine (if k \<in> set (map fst plan)
              then map (\<lambda>(k', v'). if k' = k then (k, v) else (k', v')) plan
              else plan @ [(k, v)]) kvs"

text \<open>Modelled from the spec: \<^verbatim>\<open>canConnect() -> bool\<close>.\<close>

definition can_connect :: "container \<Rightarrow> bool" where
  "can_connect c = reachable c"

text \<open>Modelled from the spec: \<^verbatim>\<open>addLayer(name, spec, combine=true)\<close>.\<close>

definition add_layer :: "string \<Rightarrow> layer \<Rightarrow> container \<Rightarrow> container" where
  "add_layer label l c =
     c\<lparr>plan_services := combine (plan_services c) (lyr_services l),
       plan_checks := combine (plan_checks c) (lyr_checks l),
       calls := calls c @ [AddLayer label l]\<rparr>"

text \<open>
  Modelled from the spec: \<^verbatim>\<open>replan()\<close>, by which the supervisor is asked to "re-evaluate its
  running services": the next outcome is consumed; on success the services of the plan
  with startup policy "enabled" run.
\<close>

definition start_enabled :: "container \<Rightarrow> container" where
  "start_enabled c =
     c\<lparr>running := remdups (running c @
          map fst (filter (\<lambda>(k, v). svc_startup v = ''enabled'') (plan_services c)))\<rparr>"

definition replan :: "container \<Rightarrow> (exn + unit) \<times> container" where
  "replan c =
     (let c1 = c\<lparr>calls := calls c @ [Replan]\<rparr> in
      case replan_results c of
        [] \<Rightarrow> (Inr (), start_enabled c1)
      | None # rs \<Rightarrow> (Inr (), start_enabled (c1\<lparr>replan_results := rs\<rparr>))
      | Some err # rs \<Rightarrow> (Inl (ChangeError err), c1\<lparr>replan_results := rs\<rparr>))"

text \<open>Modelled from the spec: \<^verbatim>\<open>stopService(name)\<close>.\<close>

definition stop :: "string \<Rightarrow> container \<Rightarrow> container" where
  "stop name c = c\<lparr>running := removeAll name (running c), calls := calls c @ [Stop name]\<rparr>"

text \<open>
  Modelled from the spec: \<^verbatim>\<open>check_container_ready\<close> of \<^verbatim>\<open>charms.osm_libs.v0.utils\<close> is not
  among the sources. It "verifies the supervisor is reachable" and raises \<^verbatim>\<open>CharmError\<close>
  otherwise; the spec gives no text for its message.
\<close>

definition check_container_ready :: "container \<Rightarrow> unit action" where
  "check_container_ready c =
     (if can_connect c then ret () else raise_exn (CharmError ''waiting for pebble to start''))"

text \<open>
  Modelled from the spec: \<^verbatim>\<open>check_service_active\<close> of \<^verbatim>\<open>charms.osm_libs.v0.utils\<close> is not
  among the sources. It verifies that "the managed service's last known execution state is
  running" and raises \<^verbatim>\<open>CharmError\<close> otherwise; a service that "was never configured" is
  reported with the message that line 203 of the charm compares with. The spec gives no
  text for the message of a service that does not run.
\<close>

definition check_service_active :: "container \<Rightarrow> string \<Rightarrow> unit action" where
  "check_service_active c service_name =
     (if service_name \<notin> set (map fst (plan_services c))
      then raise_exn (CharmError (service_name @ '' service not configured yet''))
      else if service_name \<notin> set (running c)
      then raise_exn (CharmError (service_name @ '' service is not running''))
      else ret ())"

subsection \<open>The charm's methods\<close>

text \<open>The property \<^verbatim>\<open>_pebble_layer\<close> (lines 253 to 276).\<close>

definition pebble_layer :: "charm \<Rightarrow> layer" where
  "pebble_layer s =
     \<lparr>lyr_summary = ''kafka-exporter layer'',
      lyr_description = ''pebble config layer for kafka-exporter'',
      lyr_services =
        [(pebble_service_name,
          \<lparr>svc_override = ''replace'',
           svc_summary = ''kafka-exporter service'',
           svc_command = ''bin/kafka_exporter --kafka.server='' @ format_str (kafka_endpoint s),
           svc_startup = ''enabled''\<rparr>)],
      lyr_checks =
        [(''online'',
          \<lparr>chk_override = ''replace'', chk_level = ''ready'', chk_tcp_port = PORT\<rparr>)]\<rparr>"

definition container_add_layer :: "unit action" where
  "container_add_layer s =
     (Inr (), s\<lparr>container := add_layer ''kafka-exporter'' (pebble_layer s) (container s)\<rparr>)"

definition container_replan :: "unit action" where
  "container_replan s =
     (case replan (container s) of (r, c) \<Rightarrow> (r, s\<lparr>container := c\<rparr>))"

definition container_stop :: "string \<Rightarrow> unit action" where
  "container_stop name s = (Inr (), s\<lparr>container := stop name (container s)\<rparr>)"

text \<open>\<^verbatim>\<open>_configure_service\<close> and \<^verbatim>\<open>_retry_configure_service\<close> (lines 108 to 129).\<close>

function configure_service :: "event \<Rightarrow> nat \<Rightarrow> unit action"
  and retry_configure_service :: "event \<Rightarrow> nat \<Rightarrow> string \<Rightarrow> unit action" where
  "configure_service ev retry s =
     (if retry \<noteq> 0 then
        (if can_connect (container s) then
           (case and_then container_add_layer (\<lambda>_. container_replan) s of
              (Inl (ChangeError err), s') \<Rightarrow> retry_configure_service ev retry err s'
            | (Inl (CharmError message), s') \<Rightarrow> (Inl (CharmError message), s')
            | (Inr _, s') \<Rightarrow> set_status (ActiveStatus []) s')
         else set_status (WaitingStatus ''waiting for Pebble API'')
                (s\<lparr>deferred := deferred s @ [ev]\<rparr>))
      else (Inr (), s))"
| "retry_configure_service ev retry err s =
     configure_service ev (retry - 1) (s\<lparr>slept := slept s + 5\<rparr>)"
  by pat_completeness auto
termination
  by (relation "measure (\<lambda>x. case x of
        Inl (ev, retry, s) \<Rightarrow> 3 * retry + 1
      | Inr (ev, retry, err, s) \<Rightarrow> if retry = 0 then 2 else 3 * retry)") auto

text \<open>\<^verbatim>\<open>_validate_config\<close> (lines 131 to 155).\<close>

definition validate_config :: "unit action" where
  "validate_config s =
     (if upper (cfg_log_level (config s))
           \<notin> set [''TRACE'', ''DEBUG'', ''INFO'', ''WARN'', ''ERROR'', ''FATAL'']
      then raise_exn (CharmError ''invalid value for log-level option'')
             (s\<lparr>status := BlockedStatus
                  (''invalid log level: '' @ upper (cfg_log_level (config s)))\<rparr>)
      else if truthy (cfg_kafka_endpoint (config s))
      then (if length (split CHR '':'' (the (cfg_kafka_endpoint (config s)))) \<noteq> 2
            then raise_exn
                   (CharmError
                      ''Wrong kafka-endpoint format: value must be in the format <host>:<port>'')
                   (s\<lparr>status := BlockedStatus ''Wrong kafka-endpoint format''\<rparr>)
            else ret () s)
      else ret () s)"

text \<open>\<^verbatim>\<open>_get_kafka_config\<close> (lines 157 to 162): a caught error is raised anew from its message.\<close>

definition get_kafka_config :: "string option action" where
  "get_kafka_config =
     try_except_CharmError
       (and_then validate_config (\<lambda>_ s. ret (cfg_kafka_endpoint (config s)) s))
       (\<lambda>message. raise_exn (CharmError message))"

text \<open>\<^verbatim>\<open>_get_kafka_relation\<close> (lines 164 to 169).\<close>

definition get_kafka_relation :: "charm \<Rightarrow> event option \<Rightarrow> string option" where
  "get_kafka_relation s ev =
     (if ev = Some RelationBrokenEvent then None
      else if truthy (host (kafka_client s)) \<and> truthy (port (kafka_client s))
      then Some (format_str (host (kafka_client s)) @ '':'' @ format_str (port (kafka_client s)))
      else None)"

text \<open>\<^verbatim>\<open>_get_kafka_endpoint\<close> (lines 235 to 251).\<close>

definition get_kafka_endpoint :: "event option \<Rightarrow> string action" where
  "get_kafka_endpoint ev s =
     (let relation = get_kafka_relation s ev in
      and_then get_kafka_config (\<lambda>configuration.
        if truthy configuration then
          (if truthy relation
           then raise_exn
                  (CharmError ''Kafka cannot added via relation and via config at the same time'')
           else ret (the configuration))
        else if \<not> truthy relation
        then raise_exn
               (CharmError
                  ''Not kafka-endpoint added. Kafka endpoint needs to be added via relation or via config'')
        else ret (the relation)) s)"

definition set_kafka_endpoint :: "string \<Rightarrow> unit action" where
  "set_kafka_endpoint ep s = (Inr (), s\<lparr>kafka_endpoint := Some ep\<rparr>)"

text \<open>\<^verbatim>\<open>_stop_container\<close> (lines 195 to 205).\<close>

definition stop_container :: "unit action" where
  "stop_container =
     try_except_CharmError
       (and_then (\<lambda>s. check_service_active (container s) pebble_service_name s) (\<lambda>_.
        and_then (\<lambda>s. check_container_ready (container s) s) (\<lambda>_.
        container_stop container_name)))
       (\<lambda>message.
          if message \<noteq> pebble_service_name @ '' service not configured yet''
          then container_stop container_name
          else ret ())"

text \<open>\<^verbatim>\<open>_update_ingress_config\<close> (lines 227 to 233).\<close>

definition update_ingress_config :: "unit action" where
  "update_ingress_config s =
     (Inr (), s\<lparr>ingress_updates := ingress_updates s @ [cfg_external_hostname (config s)]\<rparr>)"

text \<open>\<^verbatim>\<open>_on_kafka_exporter_pebble_ready\<close> (lines 87 to 106).\<close>

definition on_kafka_exporter_pebble_ready :: "event \<Rightarrow> unit action" where
  "on_kafka_exporter_pebble_ready ev =
     try_except_CharmError
       (and_then (get_kafka_endpoint (Some ev)) (\<lambda>ep.
        and_then (set_kafka_endpoint ep) (\<lambda>_.
        and_then container_add_layer (\<lambda>_.
        and_then container_replan (\<lambda>_.
        set_status (ActiveStatus []))))))
       (\<lambda>message. set_status (error_status message))"

text \<open>\<^verbatim>\<open>_on_config_changed\<close> (lines 171 to 181).\<close>

definition on_config_changed :: "event \<Rightarrow> unit action" where
  "on_config_changed ev =
     try_except_CharmError
       (and_then (get_kafka_endpoint (Some ev)) (\<lambda>ep.
        and_then (set_kafka_endpoint ep) (\<lambda>_.
        and_then (configure_service ev 3) (\<lambda>_.
        update_ingress_config))))
       (\<lambda>message. and_then stop_container (\<lambda>_. set_status (error_status message)))"

text \<open>\<^verbatim>\<open>_on_update_status\<close> (lines 183 to 193); \<^verbatim>\<open>_on_kafka_available\<close> calls it with no event.\<close>

definition on_update_status :: "event option \<Rightarrow> unit action" where
  "on_update_status ev =
     try_except_CharmError
       (and_then (get_kafka_endpoint ev) (\<lambda>ep.
        and_then (set_kafka_endpoint ep) (\<lambda>_.
        and_then (\<lambda>s. check_container_ready (container s) s) (\<lambda>_.
        and_then (\<lambda>s. check_service_active (container s) pebble_service_name s) (\<lambda>_.
        set_status (ActiveStatus []))))))
       (\<lambda>message. and_then stop_container (\<lambda>_. set_status (error_status message)))"

text \<open>\<^verbatim>\<open>_on_db_relation_broken\<close> (lines 207 to 214).\<close>

definition on_db_relation_broken :: "event \<Rightarrow> unit action" where
  "on_db_relation_broken ev =
     try_except_CharmError
       (and_then (get_kafka_endpoint (Some ev)) (\<lambda>ep.
        and_then (set_kafka_endpoint ep) (\<lambda>_.
        configure_service ev 3)))
       (\<lambda>message. and_then stop_container (\<lambda>_. set_status (error_status message)))"

text \<open>\<^verbatim>\<open>_on_kafka_available\<close> (lines 216 to 225): the endpoint is resolved with no event.\<close>

definition on_kafka_available :: "event \<Rightarrow> unit action" where
  "on_kafka_available ev =
     try_except_CharmError
       (and_then (get_kafka_endpoint None) (\<lambda>ep.
        and_then (set_kafka_endpoint ep) (\<lambda>_.
        and_then (\<lambda>s. check_container_ready (container s) s) (\<lambda>_.
        and_then (configure_service ev 3) (\<lambda>_.
        on_update_status None)))))
       (\<lambda>message. and_then stop_container (\<lambda>_. set_status (error_status message)))"

text \<open>The observers registered in \<^verbatim>\<open>__init__\<close> (lines 79 to 85).\<close>

definition emit :: "event \<Rightarrow> unit action" where
  "emit ev =
     (case ev of
        KafkaAvailableEvent \<Rightarrow> on_kafka_available ev
      | PebbleReadyEvent \<Rightarrow> on_kafka_exporter_pebble_ready ev
      | ConfigChangedEvent \<Rightarrow> on_config_changed ev
      | UpdateStatusEvent \<Rightarrow> on_update_status (Some ev)
      | RelationBrokenEvent \<Rightarrow> on_db_relation_broken ev)"

subsection \<open>Notions used by the properties\<close>

text \<open>The log level passes the first check of \<^verbatim>\<open>_validate_config\<close>.\<close>

definition valid_log_level :: "charm \<Rightarrow> bool" where
  "valid_log_level s \<longleftrightarrow>
     upper (cfg_log_level (config s))
       \<in> set [''TRACE'', ''DEBUG'', ''INFO'', ''WARN'', ''ERROR'', ''FATAL'']"

text \<open>How many of the coming \<^verbatim>\<open>replan\<close> calls fail before one succeeds.\<close>

definition failures :: "container \<Rightarrow> nat" where
  "failures c = length (takeWhile (\<lambda>r. r \<noteq> None) (replan_results c))"

text \<open>The two supervisor calls of one attempt of the apply step.\<close>

definition attempt :: "charm \<Rightarrow> call list" where
  "attempt s = [AddLayer ''kafka-exporter'' (pebble_layer s), Replan]"

subsection \<open>States of the unit tests\<close>

text \<open>
  The harness of \<^verbatim>\<open>tests/unit/test_charm.py\<close> after \<^verbatim>\<open>set_can_connect(True)\<close>: nothing
  configured, no relation, an empty plan.
\<close>

definition harness_container :: container where
  "harness_container =
     \<lparr>reachable = True, plan_services = [], plan_checks = [], running = [],
      replan_results = [], calls = []\<rparr>"

definition harness_charm :: charm where
  "harness_charm =
     \<lparr>config = \<lparr>cfg_log_level = ''info'', cfg_kafka_endpoint = None,
                cfg_external_hostname = Some ''kafka-exporter.127.0.0.1.nip.io''\<rparr>,
      kafka_client = \<lparr>host = None, port = None\<rparr>,
      container = harness_container,
      kafka_endpoint = None,
      status = MaintenanceStatus [],
      deferred = [],
      slept = 0,
      ingress_updates = []\<rparr>"

text \<open>\<^verbatim>\<open>harness.update_config({"kafka-endpoint": k})\<close>, without the event it emits.\<close>

definition update_config :: "string \<Rightarrow> charm \<Rightarrow> charm" where
  "update_config k s = s\<lparr>config := (config s)\<lparr>cfg_kafka_endpoint := Some k\<rparr>\<rparr>"

text \<open>\<^verbatim>\<open>harness.update_relation_data(.., {"host": h, "port": p})\<close>, without its event.\<close>

definition update_relation_data :: "string \<Rightarrow> string \<Rightarrow> charm \<Rightarrow> charm" where
  "update_relation_data h p s = s\<lparr>kafka_client := \<lparr>host = Some h, port = Some p\<rparr>\<rparr>"

text \<open>\<^verbatim>\<open>harness.set_can_connect("kafka-exporter", b)\<close>\<close>

definition set_can_connect :: "bool \<Rightarrow> charm \<Rightarrow> charm" where
  "set_can_connect b s = s\<lparr>container := (container s)\<lparr>reachable := b\<rparr>\<rparr>"

text \<open>A supervisor whose next \<^verbatim>\<open>replan\<close> calls end as listed.\<close>

definition set_replan_results :: "string option list \<Rightarrow> charm \<Rightarrow> charm" where
  "set_replan_results rs s = s\<lparr>container := (container s)\<lparr>replan_results := rs\<rparr>\<rparr>"

text \<open>A unit whose workload was started by an earlier event and still runs.\<close>

definition started_charm :: charm where
  "started_charm =
     harness_charm
       \<lparr>container := harness_container
          \<lparr>plan_services :=
             [(''kafka-exporter'',
               \<lparr>svc_override = ''replace'', svc_summary = ''kafka-exporter service'',
                svc_command = ''bin/kafka_exporter --kafka.server=kafka:9092'',
                svc_startup = ''enabled''\<rparr>)],
           running := [''kafka-exporter'']\<rparr>,
        kafka_endpoint := Some ''kafka:9092'',
        status := ActiveStatus []\<rparr>"

text \<open>A unit that waits for the supervisor, which then answers but fails to start the
  service three times in a row.\<close>

definition exhausted_charm :: charm where
  "exhausted_charm =
     (set_replan_results
        [Some ''cannot start service'', Some ''cannot start service'',
         Some ''cannot start service'']
        (update_config ''kafka:9092'' harness_charm))
       \<lparr>status := WaitingStatus ''waiting for Pebble API''\<rparr>"

subsection \<open>Methods that raise nothing but \<^verbatim>\<open>CharmError\<close>\<close>

definition raises_only_CharmError :: "'a action \<Rightarrow> bool" where
  "raises_only_CharmError m \<longleftrightarrow> (\<forall>s err. fst (m s) \<noteq> Inl (ChangeError err))"

section \<open>Properties\<close>

subsection \<open>Sequencing and strings\<close>

lemma length_split: "length (split sep x) = Suc (count_list x sep)"
  by (induction x) (auto split: list.splits)

lemma truthy_Some: "truthy (Some x) \<longleftrightarrow> x \<noteq> []"
  by (simp add: truthy_def)

lemma upper_info: "upper ''info'' = ''INFO''"
  by (simp add: upper_def upper_char_def)

subsection \<open>Resolution of the endpoint\<close>

lemma validate_config_ok:
  "valid_log_level s \<Longrightarrow> \<not> truthy (cfg_kafka_endpoint (config s)) \<Longrightarrow>
   validate_config s = (Inr (), s)"
  by (simp add: validate_config_def valid_log_level_def ret_def)

lemma validate_config_static:
  "valid_log_level s \<Longrightarrow> cfg_kafka_endpoint (config s) = Some k \<Longrightarrow> k \<noteq> [] \<Longrightarrow>
   validate_config s =
     (if length (split CHR '':'' k) \<noteq> 2
      then (Inl (CharmError
                   ''Wrong kafka-endpoint format: value must be in the format <host>:<port>''),
            s\<lparr>status := BlockedStatus ''Wrong kafka-endpoint format''\<rparr>)
      else (Inr (), s))"
  by (simp add: validate_config_def valid_log_level_def ret_def raise_exn_def truthy_def)

lemma validate_config_bad_level:
  "\<not> valid_log_level s \<Longrightarrow>
   validate_config s =
     (Inl (CharmError ''invalid value for log-level option''),
      s\<lparr>status := BlockedStatus (''invalid log level: '' @ upper (cfg_log_level (config s)))\<rparr>)"
  by (simp add: validate_config_def valid_log_level_def raise_exn_def)

lemma get_kafka_config_ok:
  "validate_config s = (Inr (), s') \<Longrightarrow>
   get_kafka_config s = (Inr (cfg_kafka_endpoint (config s')), s')"
  by (simp add: get_kafka_config_def try_except_CharmError_def and_then_def ret_def)

lemma get_kafka_config_err:
  "validate_config s = (Inl (CharmError m), s') \<Longrightarrow>
   get_kafka_config s = (Inl (CharmError m), s')"
  by (simp add: get_kafka_config_def try_except_CharmError_def and_then_def raise_exn_def)

lemma truthy_relation: "truthy (get_kafka_relation s ev) \<longleftrightarrow> get_kafka_relation s ev \<noteq> None"
  by (simp add: get_kafka_relation_def truthy_def)

lemma get_kafka_endpoint_absent:
  assumes "valid_log_level s" "\<not> truthy (cfg_kafka_endpoint (config s))"
  shows "get_kafka_endpoint ev s =
     (case get_kafka_relation s ev of
        None \<Rightarrow>
          (Inl (CharmError
                  ''Not kafka-endpoint added. Kafka endpoint needs to be added via relation or via config''),
           s)
      | Some r \<Rightarrow> (Inr r, s))"
proof -
  have "get_kafka_config s = (Inr (cfg_kafka_endpoint (config s)), s)"
    using assms by (simp add: get_kafka_config_ok validate_config_ok)
  then show ?thesis
    using assms(2)
    by (simp add: get_kafka_endpoint_def and_then_def truthy_relation raise_exn_def ret_def
        split: option.splits)
qed

lemma get_kafka_endpoint_static:
  assumes "valid_log_level s" "cfg_kafka_endpoint (config s) = Some k" "k \<noteq> []"
  shows "get_kafka_endpoint ev s =
     (if length (split CHR '':'' k) \<noteq> 2
      then (Inl (CharmError
                   ''Wrong kafka-endpoint format: value must be in the format <host>:<port>''),
            s\<lparr>status := BlockedStatus ''Wrong kafka-endpoint format''\<rparr>)
      else if get_kafka_relation s ev \<noteq> None
      then (Inl (CharmError ''Kafka cannot added via relation and via config at the same time''),
            s)
      else (Inr k, s))"
proof (cases "length (split CHR '':'' k) \<noteq> 2")
  case True
  then have "get_kafka_config s =
      (Inl (CharmError
              ''Wrong kafka-endpoint format: value must be in the format <host>:<port>''),
       s\<lparr>status := BlockedStatus ''Wrong kafka-endpoint format''\<rparr>)"
    using assms by (simp add: get_kafka_config_err validate_config_static)
  then show ?thesis
    using True by (simp add: get_kafka_endpoint_def and_then_def)
next
  case False
  then have "get_kafka_config s = (Inr (Some k), s)"
    using assms by (simp add: get_kafka_config_ok validate_config_static)
  moreover have "truthy (Some k)"
    using assms(3) by (simp add: truthy_def)
  ultimately show ?thesis
    using False
    by (simp add: get_kafka_endpoint_def and_then_def truthy_relation raise_exn_def ret_def)
qed

lemma get_kafka_endpoint_bad_level:
  assumes "\<not> valid_log_level s"
  shows "get_kafka_endpoint ev s =
     (Inl (CharmError ''invalid value for log-level option''),
      s\<lparr>status := BlockedStatus (''invalid log level: '' @ upper (cfg_log_level (config s)))\<rparr>)"
proof -
  have "get_kafka_config s =
      (Inl (CharmError ''invalid value for log-level option''),
       s\<lparr>status := BlockedStatus (''invalid log level: '' @ upper (cfg_log_level (config s)))\<rparr>)"
    using assms by (simp add: get_kafka_config_err validate_config_bad_level)
  then show ?thesis
    by (simp add: get_kafka_endpoint_def and_then_def)
qed

text \<open>Resolution returns an endpoint and leaves the state, or raises \<^verbatim>\<open>CharmError\<close>
  having touched the status at most.\<close>

lemma same_up_to_status: "\<exists>st. s = s\<lparr>status := st\<rparr>"
  by (rule exI [of _ "status s"]) simp

lemma get_kafka_endpoint_cases:
  "(\<exists>ep. get_kafka_endpoint ev s = (Inr ep, s))
   \<or> (\<exists>m st. get_kafka_endpoint ev s = (Inl (CharmError m), s\<lparr>status := st\<rparr>))"
proof (cases "valid_log_level s")
  case False
  then show ?thesis by (auto simp: get_kafka_endpoint_bad_level)
next
  case True
  show ?thesis
  proof (cases "truthy (cfg_kafka_endpoint (config s))")
    case False
    show ?thesis
      using True False
      by (cases "get_kafka_relation s ev")
        (auto simp: get_kafka_endpoint_absent same_up_to_status)
  next
    case t: True
    then obtain k where k: "cfg_kafka_endpoint (config s) = Some k" "k \<noteq> []"
      by (auto simp: truthy_def split: option.splits)
    show ?thesis
      using True k by (auto simp: get_kafka_endpoint_static same_up_to_status)
  qed
qed

subsection \<open>The apply step\<close>

declare configure_service.simps [simp del] retry_configure_service.simps [simp del]

lemma configure_service_0: "configure_service ev 0 s = (Inr (), s)"
  by (simp add: configure_service.simps)

lemma configure_service_unreachable:
  "\<not> can_connect (container s) \<Longrightarrow> retry \<noteq> 0 \<Longrightarrow>
   configure_service ev retry s =
     (Inr (),
      s\<lparr>deferred := deferred s @ [ev], status := WaitingStatus ''waiting for Pebble API''\<rparr>)"
  by (simp add: configure_service.simps set_status_def)

text \<open>One failed attempt: the layer is added, \<^verbatim>\<open>replan\<close> raises, five units of sleep, and
  the counter goes down.\<close>

lemma configure_service_fail:
  assumes "can_connect (container s)" and "replan_results (container s) = Some err # rs"
  shows "configure_service ev (Suc n) s =
     configure_service ev n
       (s\<lparr>container := (add_layer ''kafka-exporter'' (pebble_layer s) (container s))
             \<lparr>calls := calls (container s) @ attempt s, replan_results := rs\<rparr>,
          slept := slept s + 5\<rparr>)"
  using assms
  by (simp add: configure_service.simps [of ev "Suc n"] retry_configure_service.simps
      and_then_def container_add_layer_def container_replan_def replan_def add_layer_def
      attempt_def)

lemma configure_service_success:
  assumes "can_connect (container s)"
    and "replan_results (container s) = [] \<or> (\<exists>rs. replan_results (container s) = None # rs)"
  shows "configure_service ev (Suc n) s =
     (Inr (),
      s\<lparr>container := start_enabled
            ((add_layer ''kafka-exporter'' (pebble_layer s) (container s))
               \<lparr>calls := calls (container s) @ attempt s,
                replan_results := tl (replan_results (container s))\<rparr>),
        status := ActiveStatus []\<rparr>)"
  using assms
  by (auto simp add: configure_service.simps [of ev "Suc n"] and_then_def set_status_def
      container_add_layer_def container_replan_def replan_def add_layer_def attempt_def
      start_enabled_def)

lemma attempt_cong: "kafka_endpoint s' = kafka_endpoint s \<Longrightarrow> attempt s' = attempt s"
  by (simp add: attempt_def pebble_layer_def)

text \<open>The apply step on a reachable supervisor, for any retry budget \<open>n\<close>, by induction on
  the budget.\<close>

lemma configure_service_run:
  assumes "can_connect (container s)"
  shows "fst (configure_service ev n s) = Inr ()
     \<and> status (snd (configure_service ev n s)) =
         (if failures (container s) < n then ActiveStatus [] else status s)
     \<and> slept (snd (configure_service ev n s)) = slept s + 5 * min n (failures (container s))
     \<and> calls (container (snd (configure_service ev n s))) =
         calls (container s) @ concat (replicate (min n (Suc (failures (container s)))) (attempt s))
     \<and> deferred (snd (configure_service ev n s)) = deferred s
     \<and> can_connect (container (snd (configure_service ev n s)))"
  using assms
proof (induction n arbitrary: s)
  case 0
  then show ?case by (simp add: configure_service_0)
next
  case (Suc n)
  show ?case
  proof (cases "replan_results (container s)")
    case Nil
    then show ?thesis
      using Suc.prems
      by (simp add: configure_service_success failures_def can_connect_def start_enabled_def
          add_layer_def)
  next
    case (Cons r rs)
    show ?thesis
    proof (cases r)
      case None
      then show ?thesis
        using Suc.prems Cons
        by (simp add: configure_service_success failures_def can_connect_def start_enabled_def
            add_layer_def)
    next
      case (Some err)
      define s' where
        "s' = s\<lparr>container := (add_layer ''kafka-exporter'' (pebble_layer s) (container s))
                   \<lparr>calls := calls (container s) @ attempt s, replan_results := rs\<rparr>,
                slept := slept s + 5\<rparr>"
      have step: "configure_service ev (Suc n) s = configure_service ev n s'"
        unfolding s'_def using Suc.prems Cons Some by (simp add: configure_service_fail)
      have reach: "can_connect (container s')"
        using Suc.prems by (simp add: s'_def can_connect_def add_layer_def)
      have f: "failures (container s) = Suc (failures (container s'))"
        using Cons Some by (simp add: failures_def s'_def)
      have a: "attempt s' = attempt s"
        by (rule attempt_cong) (simp add: s'_def)
      have st: "status s' = status s" "slept s' = slept s + 5" "deferred s' = deferred s"
        "calls (container s') = calls (container s) @ attempt s"
        by (simp_all add: s'_def)
      show ?thesis
        using Suc.IH [OF reach] by (simp add: step f a st)
    qed
  qed
qed

text \<open>What the apply step never touches, and that it never raises.\<close>

lemma configure_service_frame:
  "config (snd (configure_service ev n s)) = config s
   \<and> kafka_client (snd (configure_service ev n s)) = kafka_client s
   \<and> kafka_endpoint (snd (configure_service ev n s)) = kafka_endpoint s
   \<and> ingress_updates (snd (configure_service ev n s)) = ingress_updates s
   \<and> fst (configure_service ev n s) = Inr ()"
proof (induction n arbitrary: s)
  case 0
  then show ?case by (simp add: configure_service_0)
next
  case (Suc n)
  show ?case
  proof (cases "can_connect (container s)")
    case False
    then show ?thesis by (simp add: configure_service_unreachable)
  next
    case True
    show ?thesis
    proof (cases "\<exists>err rs. replan_results (container s) = Some err # rs")
      case True
      then obtain err rs where "replan_results (container s) = Some err # rs" by blast
      then show ?thesis
        using \<open>can_connect (container s)\<close> Suc.IH
        by (simp add: configure_service_fail)
    next
      case False
      then have "replan_results (container s) = []
          \<or> (\<exists>rs. replan_results (container s) = None # rs)"
        by (cases "replan_results (container s)") auto
      then show ?thesis
        using \<open>can_connect (container s)\<close>
        by (simp add: configure_service_success)
    qed
  qed
qed

lemma configure_service_returns:
  "configure_service ev n s = (Inr (), snd (configure_service ev n s))"
  using configure_service_frame [of ev n s] by (simp add: prod_eq_iff)

subsection \<open>Stopping the workload\<close>

text \<open>\<^verbatim>\<open>_stop_container\<close> never raises, and it calls \<^verbatim>\<open>stop\<close> unless the service is not in
  the plan.\<close>

lemma stop_container_eq:
  "stop_container s =
     (Inr (), if pebble_service_name \<in> set (map fst (plan_services (container s)))
              then s\<lparr>container := stop container_name (container s)\<rparr> else s)"
  by (simp add: stop_container_def try_except_CharmError_def and_then_def
      check_service_active_def check_container_ready_def container_stop_def ret_def
      raise_exn_def pebble_service_name_def)

lemma stop_container_frame:
  "fst (stop_container s) = Inr ()"
  "config (snd (stop_container s)) = config s"
  "ingress_updates (snd (stop_container s)) = ingress_updates s"
  "deferred (snd (stop_container s)) = deferred s"
  by (simp_all add: stop_container_eq)

subsection \<open>The handlers\<close>

text \<open>When the first statement of a \<^verbatim>\<open>try\<close> block raises \<^verbatim>\<open>CharmError\<close>, the \<^verbatim>\<open>except\<close>
  block runs on the state it left.\<close>

lemma try_except_first_raises:
  "m s = (Inl (CharmError msg), s1) \<Longrightarrow> try_except_CharmError (and_then m f) h s = h msg s1"
  by (simp add: try_except_CharmError_def and_then_def)

lemma stop_then_status:
  "and_then stop_container (\<lambda>_. set_status st) s = (Inr (), (snd (stop_container s))\<lparr>status := st\<rparr>)"
  by (simp add: and_then_def stop_container_eq set_status_def)

lemma on_config_changed_failed:
  "get_kafka_endpoint (Some ev) s = (Inl (CharmError msg), s1) \<Longrightarrow>
   on_config_changed ev s = (Inr (), (snd (stop_container s1))\<lparr>status := error_status msg\<rparr>)"
  by (simp add: on_config_changed_def try_except_first_raises stop_then_status)

lemma on_update_status_failed:
  "get_kafka_endpoint ev s = (Inl (CharmError msg), s1) \<Longrightarrow>
   on_update_status ev s = (Inr (), (snd (stop_container s1))\<lparr>status := error_status msg\<rparr>)"
  by (simp add: on_update_status_def try_except_first_raises stop_then_status)

lemma on_db_relation_broken_failed:
  "get_kafka_endpoint (Some ev) s = (Inl (CharmError msg), s1) \<Longrightarrow>
   on_db_relation_broken ev s =
     (Inr (), (snd (stop_container s1))\<lparr>status := error_status msg\<rparr>)"
  by (simp add: on_db_relation_broken_def try_except_first_raises stop_then_status)

lemma on_kafka_available_failed:
  "get_kafka_endpoint None s = (Inl (CharmError msg), s1) \<Longrightarrow>
   on_kafka_available ev s = (Inr (), (snd (stop_container s1))\<lparr>status := error_status msg\<rparr>)"
  by (simp add: on_kafka_available_def try_except_first_raises stop_then_status)

lemma on_kafka_exporter_pebble_ready_failed:
  "get_kafka_endpoint (Some ev) s = (Inl (CharmError msg), s1) \<Longrightarrow>
   on_kafka_exporter_pebble_ready ev s = (Inr (), s1\<lparr>status := error_status msg\<rparr>)"
  by (simp add: on_kafka_exporter_pebble_ready_def try_except_first_raises set_status_def)

text \<open>When resolution succeeds, the two handlers that go straight to the apply step.\<close>

lemma on_config_changed_resolved:
  assumes "get_kafka_endpoint (Some ev) s = (Inr ep, s)"
  shows "on_config_changed ev s =
     (Inr (),
      (snd (configure_service ev 3 (s\<lparr>kafka_endpoint := Some ep\<rparr>)))
        \<lparr>ingress_updates := ingress_updates s @ [cfg_external_hostname (config s)]\<rparr>)"
proof -
  let ?s2 = "s\<lparr>kafka_endpoint := Some ep\<rparr>"
  obtain s3 where s3: "configure_service ev 3 ?s2 = (Inr (), s3)"
    using configure_service_returns by blast
  have "config s3 = config s" "ingress_updates s3 = ingress_updates s"
    using configure_service_frame [of ev 3 ?s2] by (simp_all add: s3)
  then show ?thesis
    using assms
    by (simp add: on_config_changed_def try_except_CharmError_def and_then_def
        set_kafka_endpoint_def update_ingress_config_def s3)
qed

lemma on_db_relation_broken_resolved:
  assumes "get_kafka_endpoint (Some ev) s = (Inr ep, s)"
  shows "on_db_relation_broken ev s =
     (Inr (), snd (configure_service ev 3 (s\<lparr>kafka_endpoint := Some ep\<rparr>)))"
proof -
  let ?s2 = "s\<lparr>kafka_endpoint := Some ep\<rparr>"
  obtain s3 where s3: "configure_service ev 3 ?s2 = (Inr (), s3)"
    using configure_service_returns by blast
  show ?thesis
    using assms
    by (simp add: on_db_relation_broken_def try_except_CharmError_def and_then_def
        set_kafka_endpoint_def s3)
qed

text \<open>When resolution succeeds and the first \<^verbatim>\<open>replan\<close> does, the handler of the ready
  supervisor.\<close>

lemma on_kafka_exporter_pebble_ready_resolved:
  assumes "get_kafka_endpoint (Some ev) s = (Inr ep, s)" and "failures (container s) = 0"
  shows "on_kafka_exporter_pebble_ready ev s =
     (Inr (),
      s\<lparr>kafka_endpoint := Some ep,
        container := start_enabled
            ((add_layer ''kafka-exporter'' (pebble_layer (s\<lparr>kafka_endpoint := Some ep\<rparr>))
                (container s))
               \<lparr>calls := calls (container s) @ attempt (s\<lparr>kafka_endpoint := Some ep\<rparr>),
                replan_results := tl (replan_results (container s))\<rparr>),
        status := ActiveStatus []\<rparr>)"
proof -
  have "replan_results (container s) = [] \<or> (\<exists>rs. replan_results (container s) = None # rs)"
    using assms(2)
    by (cases "replan_results (container s)") (auto simp: failures_def split: if_splits)
  then show ?thesis
    using assms(1)
    by (auto simp: on_kafka_exporter_pebble_ready_def try_except_CharmError_def and_then_def
        set_kafka_endpoint_def container_add_layer_def container_replan_def replan_def
        add_layer_def attempt_def start_enabled_def set_status_def)
qed

lemma on_kafka_exporter_pebble_ready_calls:
  assumes "get_kafka_endpoint (Some ev) s = (Inr ep, s)"
  shows "calls (container (snd (on_kafka_exporter_pebble_ready ev s))) =
     calls (container s) @ attempt (s\<lparr>kafka_endpoint := Some ep\<rparr>)"
proof (cases "replan_results (container s)")
  case Nil
  then show ?thesis
    using assms
    by (simp add: on_kafka_exporter_pebble_ready_def try_except_CharmError_def and_then_def
        set_kafka_endpoint_def container_add_layer_def container_replan_def replan_def
        add_layer_def attempt_def start_enabled_def set_status_def)
next
  case (Cons r rs)
  then show ?thesis
    using assms
    by (cases r)
      (simp_all add: on_kafka_exporter_pebble_ready_def try_except_CharmError_def and_then_def
        set_kafka_endpoint_def container_add_layer_def container_replan_def replan_def
        add_layer_def attempt_def start_enabled_def set_status_def)
qed

text \<open>What raises nothing but \<^verbatim>\<open>CharmError\<close>, piece by piece.\<close>

lemma raises_only_CharmError_and_then:
  "raises_only_CharmError m \<Longrightarrow> (\<And>x. raises_only_CharmError (f x)) \<Longrightarrow>
   raises_only_CharmError (and_then m f)"
  by (auto simp: raises_only_CharmError_def and_then_def split: prod.splits sum.splits)
    (metis fst_conv)+

lemma raises_only_CharmError_try:
  "raises_only_CharmError body \<Longrightarrow> (\<And>msg. raises_only_CharmError (h msg)) \<Longrightarrow>
   raises_only_CharmError (try_except_CharmError body h)"
  by (auto simp: raises_only_CharmError_def try_except_CharmError_def
      split: prod.splits sum.splits exn.splits)
    (metis fst_conv)+

lemma raises_only_CharmError_basic:
  "raises_only_CharmError (ret x)"
  "raises_only_CharmError (raise_exn (CharmError msg))"
  "raises_only_CharmError (set_status st)"
  "raises_only_CharmError (set_kafka_endpoint ep)"
  "raises_only_CharmError update_ingress_config"
  "raises_only_CharmError (container_stop name)"
  "raises_only_CharmError (\<lambda>s. check_container_ready (container s) s)"
  "raises_only_CharmError (\<lambda>s. check_service_active (container s) name s)"
  by (simp_all add: raises_only_CharmError_def ret_def raise_exn_def set_status_def
      set_kafka_endpoint_def update_ingress_config_def container_stop_def
      check_container_ready_def check_service_active_def)

lemma raises_only_CharmError_get_kafka_endpoint:
  "raises_only_CharmError (get_kafka_endpoint ev)"
  unfolding raises_only_CharmError_def
proof (intro allI)
  fix s err
  show "fst (get_kafka_endpoint ev s) \<noteq> Inl (ChangeError err)"
    using get_kafka_endpoint_cases [of ev s] by auto
qed

lemma raises_only_CharmError_configure_service:
  "raises_only_CharmError (configure_service ev n)"
  by (simp add: raises_only_CharmError_def configure_service_frame)

lemma raises_only_CharmError_stop_container:
  "raises_only_CharmError stop_container"
  by (simp add: raises_only_CharmError_def stop_container_eq)

lemmas raises_only_CharmError_intros =
  raises_only_CharmError_and_then raises_only_CharmError_try raises_only_CharmError_basic
  raises_only_CharmError_get_kafka_endpoint raises_only_CharmError_configure_service
  raises_only_CharmError_stop_container

text \<open>An \<^verbatim>\<open>except\<close> block that always returns lets no \<^verbatim>\<open>CharmError\<close> out.\<close>

lemma try_except_catches:
  assumes "\<And>msg s. fst (h msg s) = Inr ()"
  shows "fst (try_except_CharmError body h s) \<noteq> Inl (CharmError msg')"
proof (cases "body s")
  case (Pair r s')
  then show ?thesis
    using assms [of _ s']
    by (cases r; simp add: try_except_CharmError_def split: exn.splits)
qed

lemma try_except_returns:
  assumes "raises_only_CharmError body" and "\<And>msg s. fst (h msg s) = Inr ()"
  shows "fst (try_except_CharmError body h s) = Inr ()"
proof (cases "body s")
  case (Pair r s')
  have "r \<noteq> Inl (ChangeError err)" for err
    using assms(1) Pair by (auto simp: raises_only_CharmError_def dest: spec [of _ s])
  then show ?thesis
    using Pair assms(2) [of _ s']
    by (cases r; simp add: try_except_CharmError_def split: exn.splits)
qed

lemma stop_then_status_returns:
  "fst (and_then stop_container (\<lambda>_. set_status st) s) = Inr ()"
  by (simp add: stop_then_status)

lemma on_update_status_returns: "fst (on_update_status ev s) = Inr ()"
  unfolding on_update_status_def
  by (rule try_except_returns) (intro raises_only_CharmError_intros, rule stop_then_status_returns)

lemma on_config_changed_returns: "fst (on_config_changed ev s) = Inr ()"
  unfolding on_config_changed_def
  by (rule try_except_returns) (intro raises_only_CharmError_intros, rule stop_then_status_returns)

lemma on_db_relation_broken_returns: "fst (on_db_relation_broken ev s) = Inr ()"
  unfolding on_db_relation_broken_def
  by (rule try_except_returns) (intro raises_only_CharmError_intros, rule stop_then_status_returns)

lemma raises_only_CharmError_on_update_status:
  "raises_only_CharmError (on_update_status ev)"
  by (simp add: raises_only_CharmError_def on_update_status_returns)

lemma on_kafka_available_returns: "fst (on_kafka_available ev s) = Inr ()"
  unfolding on_kafka_available_def
  by (rule try_except_returns)
    (intro raises_only_CharmError_intros raises_only_CharmError_on_update_status,
      rule stop_then_status_returns)

lemma on_kafka_exporter_pebble_ready_catches:
  "fst (on_kafka_exporter_pebble_ready ev s) \<noteq> Inl (CharmError msg)"
  unfolding on_kafka_exporter_pebble_ready_def
  by (rule try_except_catches) (simp add: set_status_def)

subsection \<open>The states of the unit tests, evaluated\<close>

lemma valid_log_level_harness [simp]: "valid_log_level harness_charm"
  by (simp add: valid_log_level_def harness_charm_def upper_info)

lemma valid_log_level_update [simp]:
  "valid_log_level (update_config k s) = valid_log_level s"
  "valid_log_level (update_relation_data h p s) = valid_log_level s"
  "valid_log_level (set_can_connect b s) = valid_log_level s"
  "valid_log_level (set_replan_results rs s) = valid_log_level s"
  by (simp_all add: valid_log_level_def update_config_def update_relation_data_def
      set_can_connect_def set_replan_results_def)

lemma static_endpoint_update [simp]:
  "cfg_kafka_endpoint (config harness_charm) = None"
  "cfg_kafka_endpoint (config (update_config k s)) = Some k"
  "cfg_kafka_endpoint (config (update_relation_data h p s)) = cfg_kafka_endpoint (config s)"
  "cfg_kafka_endpoint (config (set_can_connect b s)) = cfg_kafka_endpoint (config s)"
  "cfg_kafka_endpoint (config (set_replan_results rs s)) = cfg_kafka_endpoint (config s)"
  by (simp_all add: harness_charm_def update_config_def update_relation_data_def
      set_can_connect_def set_replan_results_def)

lemma kafka_relation_update [simp]:
  "get_kafka_relation harness_charm ev = None"
  "get_kafka_relation (update_config k s) ev = get_kafka_relation s ev"
  "get_kafka_relation (set_can_connect b s) ev = get_kafka_relation s ev"
  "get_kafka_relation (set_replan_results rs s) ev = get_kafka_relation s ev"
  "get_kafka_relation (update_relation_data h p s) ev =
     (if ev = Some RelationBrokenEvent \<or> h = [] \<or> p = [] then None else Some (h @ '':'' @ p))"
  by (simp_all add: get_kafka_relation_def harness_charm_def update_config_def
      update_relation_data_def set_can_connect_def set_replan_results_def truthy_def
      format_str_def)

lemma can_connect_update [simp]:
  "can_connect (container harness_charm)"
  "can_connect (container (update_config k s)) = can_connect (container s)"
  "can_connect (container (update_relation_data h p s)) = can_connect (container s)"
  "can_connect (container (set_can_connect b s)) = b"
  "can_connect (container (set_replan_results rs s)) = can_connect (container s)"
  by (simp_all add: can_connect_def harness_charm_def harness_container_def update_config_def
      update_relation_data_def set_can_connect_def set_replan_results_def)

lemma kafka_client_update [simp]:
  "kafka_client (update_relation_data h p s) = \<lparr>host = Some h, port = Some p\<rparr>"
  "kafka_client (update_config k s) = kafka_client s"
  by (simp_all add: update_relation_data_def update_config_def)

text \<open>The outcome of resolution depends on the configuration and on what
  \<^verbatim>\<open>_get_kafka_relation\<close> returns, on nothing else.\<close>

lemma get_kafka_endpoint_depends:
  assumes "config s' = config s" and "get_kafka_relation s' ev' = get_kafka_relation s ev"
  shows "fst (get_kafka_endpoint ev' s') = fst (get_kafka_endpoint ev s)"
proof (cases "valid_log_level s")
  case False
  moreover from False have "\<not> valid_log_level s'"
    using assms(1) by (simp add: valid_log_level_def)
  ultimately show ?thesis
    by (simp add: get_kafka_endpoint_bad_level)
next
  case True
  then have level': "valid_log_level s'"
    using assms(1) by (simp add: valid_log_level_def)
  show ?thesis
  proof (cases "truthy (cfg_kafka_endpoint (config s))")
    case False
    then show ?thesis
      using True level' assms
      by (simp add: get_kafka_endpoint_absent split: option.splits)
  next
    case t: True
    then obtain k where k: "cfg_kafka_endpoint (config s) = Some k" "k \<noteq> []"
      by (auto simp: truthy_def split: option.splits)
    then have "cfg_kafka_endpoint (config s') = Some k"
      using assms(1) by simp
    then show ?thesis
      using True level' k assms(2)
      by (simp add: get_kafka_endpoint_static)
  qed
qed

lemma resolved_state:
  assumes "fst (get_kafka_endpoint ev s) = Inr ep"
  shows "get_kafka_endpoint ev s = (Inr ep, s)"
  using assms get_kafka_endpoint_cases [of ev s] by auto

lemma exhausted_charm_facts:
  "valid_log_level exhausted_charm"
  "cfg_kafka_endpoint (config exhausted_charm) = Some ''kafka:9092''"
  "get_kafka_relation exhausted_charm ev = None"
  "can_connect (container exhausted_charm)"
  "failures (container exhausted_charm) = 3"
  "status exhausted_charm = WaitingStatus ''waiting for Pebble API''"
  "slept exhausted_charm = 0"
  "calls (container exhausted_charm) = []"
  by (simp_all add: exhausted_charm_def valid_log_level_def get_kafka_relation_def
      can_connect_def failures_def set_replan_results_def update_config_def harness_charm_def
      harness_container_def upper_info truthy_def)

lemma started_charm_facts:
  "valid_log_level started_charm"
  "cfg_kafka_endpoint (config started_charm) = None"
  "get_kafka_relation started_charm ev = None"
  "calls (container started_charm) = []"
  "running (container started_charm) = [''kafka-exporter'']"
  "pebble_service_name \<in> fst ` set (plan_services (container started_charm))"
  by (simp_all add: started_charm_def valid_log_level_def get_kafka_relation_def
      harness_charm_def harness_container_def upper_info truthy_def pebble_service_name_def)

text \<open>What every handler does with a \<^verbatim>\<open>CharmError\<close> of resolution; the handler of an
  available dependency resolves with no event.\<close>

lemma emit_failed:
  assumes "get_kafka_endpoint (if ev = KafkaAvailableEvent then None else Some ev) s =
      (Inl (CharmError msg), s1)"
  shows "emit ev s =
      (Inr (),
       (if ev = PebbleReadyEvent then s1 else snd (stop_container s1))
         \<lparr>status := BlockedStatus msg\<rparr>)"
  using assms
  by (cases ev)
    (simp_all add: emit_def on_kafka_available_failed on_kafka_exporter_pebble_ready_failed
      on_config_changed_failed on_update_status_failed on_db_relation_broken_failed
      error_status_def)

lemma emit_failed_status:
  assumes "get_kafka_endpoint (if ev = KafkaAvailableEvent then None else Some ev) s =
      (Inl (CharmError msg), s1)"
  shows "fst (emit ev s) = Inr () \<and> status (snd (emit ev s)) = BlockedStatus msg"
  by (simp add: emit_failed [OF assms])

text \<open>With a static endpoint and a relation endpoint, resolution fails whatever else
  holds; without either, too.\<close>

lemma get_kafka_endpoint_both:
  assumes "cfg_kafka_endpoint (config s) = Some k" and "k \<noteq> []"
    and "get_kafka_relation s ev \<noteq> None"
  shows "\<exists>msg s1. get_kafka_endpoint ev s = (Inl (CharmError msg), s1)"
proof (cases "valid_log_level s")
  case True
  then show ?thesis
    using assms by (simp add: get_kafka_endpoint_static)
next
  case False
  then show ?thesis
    by (simp add: get_kafka_endpoint_bad_level)
qed

lemma get_kafka_endpoint_neither:
  assumes "\<not> truthy (cfg_kafka_endpoint (config s))" and "get_kafka_relation s ev = None"
  shows "\<exists>msg s1. get_kafka_endpoint ev s = (Inl (CharmError msg), s1)"
proof (cases "valid_log_level s")
  case True
  then show ?thesis
    using assms by (simp add: get_kafka_endpoint_absent)
next
  case False
  then show ?thesis
    by (simp add: get_kafka_endpoint_bad_level)
qed

text \<open>After the apply step on a reachable supervisor the service is in the plan; it runs
  once a replan has succeeded, and the running services are untouched when none has.\<close>

lemma combine_single_mem: "(k, v) \<in> set (combine plan [(k, v)])"
proof (cases "k \<in> set (map fst plan)")
  case True
  then obtain b where "(k, b) \<in> set plan"
    by auto
  then have "(\<lambda>(k', v'). if k' = k then (k, v) else (k', v')) (k, b)
      \<in> (\<lambda>(k', v'). if k' = k then (k, v) else (k', v')) ` set plan"
    by (rule imageI)
  then show ?thesis
    using True by simp
next
  case False
  then show ?thesis by simp
qed

lemma add_layer_plan:
  "pebble_service_name \<in> fst ` set (plan_services (add_layer l (pebble_layer s) c))"
proof -
  obtain v where "lyr_services (pebble_layer s) = [(pebble_service_name, v)]"
    by (simp add: pebble_layer_def)
  then show ?thesis
    using combine_single_mem [of pebble_service_name v "plan_services c"]
    by (simp add: add_layer_def image_iff) force
qed

lemma start_enabled_running:
  "pebble_service_name \<in> set (running (start_enabled
      ((add_layer l (pebble_layer s) c)\<lparr>calls := cs, replan_results := rs\<rparr>)))"
proof -
  obtain v where v: "lyr_services (pebble_layer s) = [(pebble_service_name, v)]"
    "svc_startup v = ''enabled''"
    by (simp add: pebble_layer_def)
  have "(pebble_service_name, v) \<in> set (combine (plan_services c) [(pebble_service_name, v)])"
    by (rule combine_single_mem)
  then show ?thesis
    using v by (simp add: start_enabled_def add_layer_def image_iff) force
qed

lemma configure_service_plan:
  assumes "can_connect (container s)" and "n \<noteq> 0"
  shows "pebble_service_name \<in> fst ` set (plan_services (container (snd (configure_service ev n s))))"
  using assms
proof (induction n arbitrary: s)
  case 0
  then show ?case by simp
next
  case (Suc n)
  show ?case
  proof (cases "\<exists>err rs. replan_results (container s) = Some err # rs")
    case True
    then obtain err rs where rs: "replan_results (container s) = Some err # rs" by blast
    define s' where
      "s' = s\<lparr>container := (add_layer ''kafka-exporter'' (pebble_layer s) (container s))
                 \<lparr>calls := calls (container s) @ attempt s, replan_results := rs\<rparr>,
              slept := slept s + 5\<rparr>"
    have step: "configure_service ev (Suc n) s = configure_service ev n s'"
      unfolding s'_def using Suc.prems rs by (simp add: configure_service_fail)
    have reach: "can_connect (container s')"
      using Suc.prems by (simp add: s'_def can_connect_def add_layer_def)
    have here: "pebble_service_name \<in> fst ` set (plan_services (container s'))"
      using add_layer_plan [of "''kafka-exporter''" s "container s"] by (simp add: s'_def)
    show ?thesis
    proof (cases "n = 0")
      case True
      then show ?thesis using here step by (simp add: configure_service_0)
    next
      case False
      then show ?thesis using Suc.IH [OF reach] by (simp add: step)
    qed
  next
    case False
    then have "replan_results (container s) = []
        \<or> (\<exists>rs. replan_results (container s) = None # rs)"
      by (cases "replan_results (container s)") auto
    then show ?thesis
      using Suc.prems(1) add_layer_plan [of "''kafka-exporter''" s "container s"]
      by (simp add: configure_service_success start_enabled_def)
  qed
qed

lemma configure_service_running:
  assumes "can_connect (container s)"
  shows "(failures (container s) < n \<longrightarrow>
           pebble_service_name \<in> set (running (container (snd (configure_service ev n s)))))
       \<and> (n \<le> failures (container s) \<longrightarrow>
           running (container (snd (configure_service ev n s))) = running (container s))"
  using assms
proof (induction n arbitrary: s)
  case 0
  then show ?case by (simp add: configure_service_0)
next
  case (Suc n)
  show ?case
  proof (cases "\<exists>err rs. replan_results (container s) = Some err # rs")
    case True
    then obtain err rs where rs: "replan_results (container s) = Some err # rs" by blast
    define s' where
      "s' = s\<lparr>container := (add_layer ''kafka-exporter'' (pebble_layer s) (container s))
                 \<lparr>calls := calls (container s) @ attempt s, replan_results := rs\<rparr>,
              slept := slept s + 5\<rparr>"
    have step: "configure_service ev (Suc n) s = configure_service ev n s'"
      unfolding s'_def using Suc.prems rs by (simp add: configure_service_fail)
    have reach: "can_connect (container s')"
      using Suc.prems by (simp add: s'_def can_connect_def add_layer_def)
    have f: "failures (container s) = Suc (failures (container s'))"
      using rs by (simp add: failures_def s'_def)
    have run: "running (container s') = running (container s)"
      by (simp add: s'_def add_layer_def)
    show ?thesis
      using Suc.IH [OF reach] by (simp add: step f run)
  next
    case False
    then have ok: "replan_results (container s) = []
        \<or> (\<exists>rs. replan_results (container s) = None # rs)"
      by (cases "replan_results (container s)") auto
    then have f: "failures (container s) = 0"
      by (auto simp: failures_def)
    show ?thesis
      using Suc.prems ok start_enabled_running
      by (simp add: configure_service_success f)
  qed
qed

text \<open>The handlers of the status poll and of the available dependency, case by case.\<close>

lemma on_update_status_active:
  assumes "get_kafka_endpoint ev s = (Inr ep, s)" and "can_connect (container s)"
    and "pebble_service_name \<in> fst ` set (plan_services (container s))"
    and "pebble_service_name \<in> set (running (container s))"
  shows "on_update_status ev s = (Inr (), s\<lparr>kafka_endpoint := Some ep, status := ActiveStatus []\<rparr>)"
  using assms
  by (simp add: on_update_status_def try_except_CharmError_def and_then_def
      set_kafka_endpoint_def check_container_ready_def check_service_active_def ret_def
      set_status_def)


lemma on_update_status_not_running:
  assumes "get_kafka_endpoint ev s = (Inr ep, s)" and "can_connect (container s)"
    and "pebble_service_name \<in> fst ` set (plan_services (container s))"
    and "pebble_service_name \<notin> set (running (container s))"
  shows "on_update_status ev s =
     (Inr (),
      s\<lparr>kafka_endpoint := Some ep,
        container := stop container_name (container s),
        status := BlockedStatus (pebble_service_name @ '' service is not running'')\<rparr>)"
  using assms
  by (simp add: on_update_status_def try_except_CharmError_def and_then_def
      set_kafka_endpoint_def check_container_ready_def check_service_active_def ret_def
      raise_exn_def stop_container_eq set_status_def error_status_def)


lemma on_kafka_available_reachable:
  assumes "get_kafka_endpoint None s = (Inr ep, s)" and "can_connect (container s)"
  shows "on_kafka_available ev s =
     on_update_status None (snd (configure_service ev 3 (s\<lparr>kafka_endpoint := Some ep\<rparr>)))"
proof -
  let ?s2 = "s\<lparr>kafka_endpoint := Some ep\<rparr>"
  obtain s3 where s3: "configure_service ev 3 ?s2 = (Inr (), s3)"
    using configure_service_returns by blast
  obtain s4 where s4: "on_update_status None s3 = (Inr (), s4)"
    using on_update_status_returns [of None s3] by (cases "on_update_status None s3") simp
  show ?thesis
    using assms
    by (simp add: on_kafka_available_def try_except_CharmError_def and_then_def
        set_kafka_endpoint_def check_container_ready_def ret_def s3 s4)
qed

text \<open>The apply step leaves resolution as it was.\<close>

lemma resolved_after_configure_service:
  assumes "get_kafka_endpoint None s = (Inr ep, s)"
  shows "get_kafka_endpoint None (snd (configure_service ev n (s\<lparr>kafka_endpoint := Some ep\<rparr>))) =
     (Inr ep, snd (configure_service ev n (s\<lparr>kafka_endpoint := Some ep\<rparr>)))"
proof -
  let ?s3 = "snd (configure_service ev n (s\<lparr>kafka_endpoint := Some ep\<rparr>))"
  have "config ?s3 = config s" "kafka_client ?s3 = kafka_client s"
    using configure_service_frame [of ev n "s\<lparr>kafka_endpoint := Some ep\<rparr>"] by simp_all
  then have "fst (get_kafka_endpoint None ?s3) = fst (get_kafka_endpoint None s)"
    by (intro get_kafka_endpoint_depends) (simp_all add: get_kafka_relation_def)
  then show ?thesis
    using assms by (simp add: resolved_state)
qed

lemma on_kafka_available_run:
  assumes r: "get_kafka_endpoint None s = (Inr ep, s)" and c: "can_connect (container s)"
  shows "fst (on_kafka_available ev s) = Inr ()
     \<and> calls (container (snd (on_kafka_available ev s))) =
         calls (container s) @
         concat (replicate (min 3 (Suc (failures (container s))))
                   (attempt (s\<lparr>kafka_endpoint := Some ep\<rparr>))) @
         (if 3 \<le> failures (container s) \<and> pebble_service_name \<notin> set (running (container s))
          then [Stop container_name] else [])
     \<and> (failures (container s) < 3 \<longrightarrow>
          status (snd (on_kafka_available ev s)) = ActiveStatus []
        \<and> kafka_endpoint (snd (on_kafka_available ev s)) = Some ep)"
proof -
  let ?s2 = "s\<lparr>kafka_endpoint := Some ep\<rparr>"
  let ?s3 = "snd (configure_service ev 3 ?s2)"
  have c2: "can_connect (container ?s2)"
    using c by simp
  note run = configure_service_run [OF c2, of ev 3]
  have plan: "pebble_service_name \<in> fst ` set (plan_services (container ?s3))"
    using configure_service_plan [OF c2, of 3 ev] by simp
  note running = configure_service_running [OF c2, of 3 ev]
  have r3: "get_kafka_endpoint None ?s3 = (Inr ep, ?s3)"
    using r by (rule resolved_after_configure_service)
  have c3: "can_connect (container ?s3)"
    using run by simp
  have eq: "on_kafka_available ev s = on_update_status None ?s3"
    using r c by (rule on_kafka_available_reachable)
  show ?thesis
  proof (cases "pebble_service_name \<in> set (running (container ?s3))")
    case True
    have "on_update_status None ?s3 = (Inr (), ?s3\<lparr>kafka_endpoint := Some ep, status := ActiveStatus []\<rparr>)"
      using r3 c3 plan True by (rule on_update_status_active)
    moreover have "failures (container s) < 3 \<or> pebble_service_name \<in> set (running (container s))"
      using True running by (cases "failures (container s) < 3") simp_all
    ultimately show ?thesis
      using run by (auto simp: eq)
  next
    case False
    have "on_update_status None ?s3 =
       (Inr (), ?s3\<lparr>kafka_endpoint := Some ep, container := stop container_name (container ?s3),
          status := BlockedStatus (pebble_service_name @ '' service is not running'')\<rparr>)"
      using r3 c3 plan False by (rule on_update_status_not_running)
    moreover have "3 \<le> failures (container s)" "pebble_service_name \<notin> set (running (container s))"
      using False running by (cases "failures (container s) < 3"; simp)+
    ultimately show ?thesis
      using run by (simp add: eq stop_def)
  qed
qed

lemma on_update_status_not_configured:
  assumes "get_kafka_endpoint ev s = (Inr ep, s)" and "can_connect (container s)"
    and "pebble_service_name \<notin> fst ` set (plan_services (container s))"
  shows "on_update_status ev s =
     (Inr (),
      s\<lparr>kafka_endpoint := Some ep,
        status := BlockedStatus (pebble_service_name @ '' service not configured yet'')\<rparr>)"
  using assms
  by (simp add: on_update_status_def try_except_CharmError_def and_then_def
      set_kafka_endpoint_def check_container_ready_def check_service_active_def ret_def
      raise_exn_def stop_container_eq set_status_def error_status_def)

subsection \<open>Claims\<close>

text \<open>
  C1, as the code has it. On a reachable supervisor the apply step makes one attempt more
  than \<^verbatim>\<open>replan\<close> fails, and three at most; each attempt submits the layer and asks for a
  replan. After every failed attempt it sleeps 5 units and goes on with the counter
  decremented. It never raises: if an attempt succeeds the status is Active, and when all
  three fail it returns normally, after 15 units of sleep, with the status it found.
\<close>

theorem configure_service_retry:
  assumes "can_connect (container s)"
  shows "fst (configure_service ev 3 s) = Inr ()
     \<and> calls (container (snd (configure_service ev 3 s))) =
         calls (container s) @ concat (replicate (min 3 (Suc (failures (container s)))) (attempt s))
     \<and> slept (snd (configure_service ev 3 s)) = slept s + 5 * min 3 (failures (container s))
     \<and> status (snd (configure_service ev 3 s)) =
         (if failures (container s) < 3 then ActiveStatus [] else status s)
     \<and> (replan_results (container s) = Some err # rs \<longrightarrow>
          configure_service ev 3 s =
            configure_service ev 2
              (s\<lparr>container := (add_layer ''kafka-exporter'' (pebble_layer s) (container s))
                    \<lparr>calls := calls (container s) @ attempt s, replan_results := rs\<rparr>,
                 slept := slept s + 5\<rparr>))
     \<and> configure_service ev 0 s = (Inr (), s)"
proof -
  have "configure_service ev (Suc 2) s =
      configure_service ev 2
        (s\<lparr>container := (add_layer ''kafka-exporter'' (pebble_layer s) (container s))
              \<lparr>calls := calls (container s) @ attempt s, replan_results := rs\<rparr>,
           slept := slept s + 5\<rparr>)"
    if "replan_results (container s) = Some err # rs"
    using assms that by (rule configure_service_fail)
  then show ?thesis
    using configure_service_run [OF assms, of ev 3]
    by (simp add: configure_service_0 numeral_3_eq_3)
qed

theorem configure_service_retry_witness:
  "can_connect (container exhausted_charm)
   \<and> replan_results (container exhausted_charm) =
       [Some ''cannot start service'', Some ''cannot start service'', Some ''cannot start service'']
   \<and> fst (configure_service ConfigChangedEvent 3 exhausted_charm) = Inr ()
   \<and> calls (container (snd (configure_service ConfigChangedEvent 3 exhausted_charm))) =
       attempt exhausted_charm @ attempt exhausted_charm @ attempt exhausted_charm
   \<and> slept (snd (configure_service ConfigChangedEvent 3 exhausted_charm)) = 15
   \<and> status (snd (configure_service ConfigChangedEvent 3 exhausted_charm)) =
       WaitingStatus ''waiting for Pebble API''"
proof -
  have rs: "replan_results (container exhausted_charm) =
      [Some ''cannot start service'', Some ''cannot start service'', Some ''cannot start service'']"
    by (simp add: exhausted_charm_def set_replan_results_def)
  have "fst (configure_service ConfigChangedEvent 3 exhausted_charm) = Inr ()
     \<and> calls (container (snd (configure_service ConfigChangedEvent 3 exhausted_charm))) =
         calls (container exhausted_charm) @
         concat (replicate (min 3 (Suc (failures (container exhausted_charm))))
                   (attempt exhausted_charm))
     \<and> slept (snd (configure_service ConfigChangedEvent 3 exhausted_charm)) =
         slept exhausted_charm + 5 * min 3 (failures (container exhausted_charm))
     \<and> status (snd (configure_service ConfigChangedEvent 3 exhausted_charm)) =
         (if failures (container exhausted_charm) < 3 then ActiveStatus []
          else status exhausted_charm)"
    using configure_service_retry [OF exhausted_charm_facts(4), of ConfigChangedEvent]
    by blast
  then show ?thesis
    using rs by (simp add: exhausted_charm_facts numeral_3_eq_3)
qed

text \<open>
  C1, as the claim states it, fails. The unit waits for the supervisor; a configuration
  change finds it reachable, and \<^verbatim>\<open>replan\<close> raises \<^verbatim>\<open>ChangeError\<close> three times. The handler
  returns normally, so no error has propagated, and the status is still the Waiting one:
  it is not Blocked and carries no message of the error.
\<close>

theorem retry_exhausted_counterexample:
  "failures (container exhausted_charm) = 3
   \<and> fst (emit ConfigChangedEvent exhausted_charm) = Inr ()
   \<and> status (snd (emit ConfigChangedEvent exhausted_charm)) =
       WaitingStatus ''waiting for Pebble API''
   \<and> slept (snd (emit ConfigChangedEvent exhausted_charm)) = 15"
proof -
  let ?s2 = "exhausted_charm\<lparr>kafka_endpoint := Some ''kafka:9092''\<rparr>"
  have r: "get_kafka_endpoint (Some ConfigChangedEvent) exhausted_charm =
      (Inr ''kafka:9092'', exhausted_charm)"
    by (simp add: get_kafka_endpoint_static [where k = "''kafka:9092''"] exhausted_charm_facts)
  have c: "can_connect (container ?s2)"
    using exhausted_charm_facts(4) by simp
  show ?thesis
    using configure_service_run [OF c, of ConfigChangedEvent 3]
    by (simp add: emit_def on_config_changed_resolved [OF r] exhausted_charm_facts)
qed

text \<open>
  C2, as the code has it. On a configuration change the externally configured hostname is
  pushed to the ingress library exactly when the endpoint resolves: the push is the last
  statement of the \<^verbatim>\<open>try\<close> block, after resolution and the apply step. When resolution
  fails, nothing is pushed. The push leaves the unit status alone.
\<close>

theorem ingress_push_follows_resolution:
  "ingress_updates (snd (on_config_changed ev s)) =
     (case fst (get_kafka_endpoint (Some ev) s) of
        Inr ep \<Rightarrow> ingress_updates s @ [cfg_external_hostname (config s)]
      | Inl e \<Rightarrow> ingress_updates s)
   \<and> fst (update_ingress_config s) = Inr ()
   \<and> status (snd (update_ingress_config s)) = status s"
proof -
  have "ingress_updates (snd (on_config_changed ev s)) =
     (case fst (get_kafka_endpoint (Some ev) s) of
        Inr ep \<Rightarrow> ingress_updates s @ [cfg_external_hostname (config s)]
      | Inl e \<Rightarrow> ingress_updates s)"
    using get_kafka_endpoint_cases [of "Some ev" s]
  proof (elim disjE exE)
    fix ep
    assume r: "get_kafka_endpoint (Some ev) s = (Inr ep, s)"
    show ?thesis
      by (simp add: on_config_changed_resolved [OF r] r)
  next
    fix m st
    assume r: "get_kafka_endpoint (Some ev) s = (Inl (CharmError m), s\<lparr>status := st\<rparr>)"
    show ?thesis
      by (simp add: on_config_changed_failed [OF r] r stop_container_frame)
  qed
  then show ?thesis
    by (simp add: update_ingress_config_def)
qed

theorem ingress_push_follows_resolution_witness:
  "fst (get_kafka_endpoint (Some ConfigChangedEvent) (update_config ''kafka:9092'' harness_charm)) =
     Inr ''kafka:9092''
   \<and> ingress_updates (snd (on_config_changed ConfigChangedEvent
        (update_config ''kafka:9092'' harness_charm))) =
       [Some ''kafka-exporter.127.0.0.1.nip.io'']"
proof -
  let ?s = "update_config ''kafka:9092'' harness_charm"
  have r: "fst (get_kafka_endpoint (Some ConfigChangedEvent) ?s) = Inr ''kafka:9092''"
    by (simp add: get_kafka_endpoint_static [where k = "''kafka:9092''"])
  have "ingress_updates ?s = []"
    "cfg_external_hostname (config ?s) = Some ''kafka-exporter.127.0.0.1.nip.io''"
    by (simp_all add: update_config_def harness_charm_def)
  then show ?thesis
    using ingress_push_follows_resolution [of ConfigChangedEvent ?s] r by simp
qed

text \<open>
  C2, as the claim states it, fails: with no endpoint at all, a configuration change ends
  Blocked and the hostname that is configured is not pushed.
\<close>

theorem ingress_not_pushed_counterexample:
  "cfg_external_hostname (config harness_charm) = Some ''kafka-exporter.127.0.0.1.nip.io''
   \<and> status (snd (emit ConfigChangedEvent harness_charm)) =
       BlockedStatus
         ''Not kafka-endpoint added. Kafka endpoint needs to be added via relation or via config''
   \<and> ingress_updates (snd (emit ConfigChangedEvent harness_charm)) = []"
proof -
  have r: "get_kafka_endpoint (Some ConfigChangedEvent) harness_charm =
      (Inl (CharmError
         ''Not kafka-endpoint added. Kafka endpoint needs to be added via relation or via config''),
       harness_charm)"
    by (simp add: get_kafka_endpoint_absent truthy_def)
  have "ingress_updates harness_charm = []"
    "cfg_external_hostname (config harness_charm) = Some ''kafka-exporter.127.0.0.1.nip.io''"
    by (simp_all add: harness_charm_def)
  then show ?thesis
    by (simp add: emit_def on_config_changed_failed [OF r] stop_container_frame
        error_status_def)
qed

text \<open>
  C3. The claim says that every handler turns a failure of reconciliation into a status
  update and a best-effort stop of the workload, and lets no failure out. The handlers of
  a configuration change, a status poll, a broken relation and an available dependency do
  so. The handler of the ready supervisor does not, and the code evaluated there shows it:
  with the workload running and no endpoint, it sets the status Blocked and makes no call
  on the supervisor, so the workload keeps running, where the handler of a configuration
  change, in the same state, stops it; and when the endpoint resolves but \<^verbatim>\<open>replan\<close>
  raises \<^verbatim>\<open>ChangeError\<close>, which the apply step of the other handlers catches, it lets the
  error out.
\<close>

theorem pebble_ready_handler_diverges:
  "status (snd (emit PebbleReadyEvent started_charm)) =
     BlockedStatus
       ''Not kafka-endpoint added. Kafka endpoint needs to be added via relation or via config''
   \<and> calls (container (snd (emit PebbleReadyEvent started_charm))) = []
   \<and> running (container (snd (emit PebbleReadyEvent started_charm))) = [''kafka-exporter'']
   \<and> calls (container (snd (emit ConfigChangedEvent started_charm))) = [Stop ''kafka-exporter'']
   \<and> running (container (snd (emit ConfigChangedEvent started_charm))) = []
   \<and> fst (emit PebbleReadyEvent
       (set_replan_results [Some ''cannot start service'']
          (update_config ''kafka:9092'' harness_charm))) =
       Inl (ChangeError ''cannot start service'')
   \<and> fst (emit ConfigChangedEvent
       (set_replan_results [Some ''cannot start service'']
          (update_config ''kafka:9092'' harness_charm))) =
       Inr ()"
proof -
  let ?m = "''Not kafka-endpoint added. Kafka endpoint needs to be added via relation or via config''"
  let ?s = "set_replan_results [Some ''cannot start service''] (update_config ''kafka:9092'' harness_charm)"
  have r: "get_kafka_endpoint (Some e) started_charm = (Inl (CharmError ?m), started_charm)" for e
    by (simp add: get_kafka_endpoint_absent started_charm_facts truthy_def)
  have ready: "emit PebbleReadyEvent started_charm =
      (Inr (), started_charm\<lparr>status := BlockedStatus ?m\<rparr>)"
    by (simp add: emit_def on_kafka_exporter_pebble_ready_failed [OF r] error_status_def)
  have changed: "emit ConfigChangedEvent started_charm =
      (Inr (), started_charm\<lparr>container := stop container_name (container started_charm),
                 status := BlockedStatus ?m\<rparr>)"
    by (simp add: emit_def on_config_changed_failed [OF r] error_status_def stop_container_eq
        started_charm_facts)
  have r': "get_kafka_endpoint (Some PebbleReadyEvent) ?s = (Inr ''kafka:9092'', ?s)"
    by (simp add: get_kafka_endpoint_static [where k = "''kafka:9092''"])
  have rs: "replan_results (container ?s) = [Some ''cannot start service'']"
    by (simp add: set_replan_results_def)
  have raised: "fst (emit PebbleReadyEvent ?s) = Inl (ChangeError ''cannot start service'')"
    using r' rs
    by (simp add: emit_def on_kafka_exporter_pebble_ready_def try_except_CharmError_def
        and_then_def set_kafka_endpoint_def container_add_layer_def container_replan_def
        replan_def add_layer_def)
  have caught: "fst (emit ConfigChangedEvent ?s) = Inr ()"
    by (simp add: emit_def on_config_changed_returns)
  show ?thesis
    by (simp add: ready changed raised caught started_charm_facts stop_def container_name_def)
qed

text \<open>
  C4, as the code has it. For a static endpoint string that is present and not empty, with
  a valid log level: if the string does not split into exactly two colon-separated parts,
  that is, if it holds no colon or more than one, resolution fails with the error of a
  wrong format and the status is Blocked; if it does, resolution yields that string when
  there is no relation endpoint (and fails with the conflict of sources when there is
  one). So, with no relation endpoint, resolution succeeds if and only if the string holds
  exactly one colon; the two parts themselves may be empty.
\<close>

theorem static_endpoint_resolution:
  assumes "valid_log_level s" and "cfg_kafka_endpoint (config s) = Some k" and "k \<noteq> []"
  shows "get_kafka_endpoint ev s =
           (if length (split CHR '':'' k) \<noteq> 2
            then (Inl (CharmError
                    ''Wrong kafka-endpoint format: value must be in the format <host>:<port>''),
                  s\<lparr>status := BlockedStatus ''Wrong kafka-endpoint format''\<rparr>)
            else if get_kafka_relation s ev \<noteq> None
            then (Inl (CharmError
                    ''Kafka cannot added via relation and via config at the same time''), s)
            else (Inr k, s))
       \<and> (get_kafka_relation s ev = None \<longrightarrow>
            ((\<exists>ep. fst (get_kafka_endpoint ev s) = Inr ep) \<longleftrightarrow> length (split CHR '':'' k) = 2)
          \<and> (fst (get_kafka_endpoint ev s) = Inr k \<longleftrightarrow> count_list k CHR '':'' = 1))
       \<and> (length (split CHR '':'' k) = 2 \<longleftrightarrow> count_list k CHR '':'' = 1)"
  using assms by (simp add: get_kafka_endpoint_static length_split)

theorem static_endpoint_resolution_witness:
  "valid_log_level (update_config ''kafka:9092'' harness_charm)
   \<and> cfg_kafka_endpoint (config (update_config ''kafka:9092'' harness_charm)) = Some ''kafka:9092''
   \<and> ''kafka:9092'' \<noteq> []
   \<and> get_kafka_relation (update_config ''kafka:9092'' harness_charm) (Some ConfigChangedEvent) = None
   \<and> count_list ''kafka:9092'' CHR '':'' = 1
   \<and> get_kafka_endpoint (Some ConfigChangedEvent) (update_config ''kafka:9092'' harness_charm) =
       (Inr ''kafka:9092'', update_config ''kafka:9092'' harness_charm)"
  using static_endpoint_resolution
    [of "update_config ''kafka:9092'' harness_charm" "''kafka:9092''" "Some ConfigChangedEvent"]
  by simp

text \<open>
  C4, as the claim states it, fails: the static endpoint \<^verbatim>\<open>kafka:\<close> has an empty second
  part, and resolution accepts it.
\<close>

theorem empty_port_counterexample:
  "split CHR '':'' ''kafka:'' = [''kafka'', []]
   \<and> get_kafka_endpoint (Some ConfigChangedEvent) (update_config ''kafka:'' harness_charm) =
       (Inr ''kafka:'', update_config ''kafka:'' harness_charm)"
  by (simp add: get_kafka_endpoint_static [where k = "''kafka:''"])

text \<open>
  C5. When the static endpoint and the relation endpoint are both present (the static
  option is set and not empty, host and port of the relation are both published, and the
  event is not the one that breaks the relation), resolution fails, whether it is run with
  the event or with none, and every handler leaves the unit Blocked. When the configuration
  passes the validation that comes first (the log level is valid and the static value
  splits in two at its colon), the failure is the one of conflicting sources, and the unit
  is Blocked with the message
  "Kafka cannot added via relation and via config at the same time".
  The charm keeps no record of which source came first: the outcome is a function of the
  state, whichever event (configuration changed, dependency available, ...) comes last.
\<close>

theorem conflicting_sources:
  assumes "cfg_kafka_endpoint (config s) = Some k" and "k \<noteq> []"
    and "truthy (host (kafka_client s))" and "truthy (port (kafka_client s))"
    and "ev \<noteq> RelationBrokenEvent"
  shows "(\<exists>msg. fst (get_kafka_endpoint (Some ev) s) = Inl (CharmError msg))
       \<and> (\<exists>msg. fst (get_kafka_endpoint None s) = Inl (CharmError msg))
       \<and> fst (emit ev s) = Inr ()
       \<and> (\<exists>msg. status (snd (emit ev s)) = BlockedStatus msg)
       \<and> (valid_log_level s \<and> length (split CHR '':'' k) = 2 \<longrightarrow>
            get_kafka_endpoint (Some ev) s =
              (Inl (CharmError
                 ''Kafka cannot added via relation and via config at the same time''), s)
          \<and> get_kafka_endpoint None s =
              (Inl (CharmError
                 ''Kafka cannot added via relation and via config at the same time''), s)
          \<and> status (snd (emit ev s)) =
              BlockedStatus ''Kafka cannot added via relation and via config at the same time'')"
proof -
  let ?m = "''Kafka cannot added via relation and via config at the same time''"
  let ?evo = "if ev = KafkaAvailableEvent then None else Some ev"
  have rel: "get_kafka_relation s (Some ev) \<noteq> None" "get_kafka_relation s None \<noteq> None"
    using assms(3-5) by (simp_all add: get_kafka_relation_def)
  then have rel': "get_kafka_relation s ?evo \<noteq> None"
    by simp
  obtain m1 s1 where f1: "get_kafka_endpoint (Some ev) s = (Inl (CharmError m1), s1)"
    using get_kafka_endpoint_both [OF assms(1,2) rel(1)] by blast
  obtain m2 s2 where f2: "get_kafka_endpoint None s = (Inl (CharmError m2), s2)"
    using get_kafka_endpoint_both [OF assms(1,2) rel(2)] by blast
  obtain m3 s3 where f3: "get_kafka_endpoint ?evo s = (Inl (CharmError m3), s3)"
    using get_kafka_endpoint_both [OF assms(1,2) rel'] by blast
  have always: "fst (emit ev s) = Inr () \<and> (\<exists>msg. status (snd (emit ev s)) = BlockedStatus msg)"
    using emit_failed_status [OF f3] by blast
  have exact: "get_kafka_endpoint (Some ev) s = (Inl (CharmError ?m), s)
      \<and> get_kafka_endpoint None s = (Inl (CharmError ?m), s)
      \<and> status (snd (emit ev s)) = BlockedStatus ?m"
    if v: "valid_log_level s" and l: "length (split CHR '':'' k) = 2"
  proof -
    have r: "get_kafka_endpoint e s = (Inl (CharmError ?m), s)"
      if "get_kafka_relation s e \<noteq> None" for e
      using v l assms(1,2) that by (simp add: get_kafka_endpoint_static)
    have "status (snd (emit ev s)) = BlockedStatus ?m"
      using emit_failed_status [OF r [OF rel']] by simp
    then show ?thesis
      using r [OF rel(1)] r [OF rel(2)] by simp
  qed
  show ?thesis
    using f1 f2 always exact by simp
qed

theorem conflicting_sources_witness:
  "cfg_kafka_endpoint
       (config (update_relation_data ''kafka'' ''9092'' (update_config ''kafka:9092'' harness_charm)))
       = Some ''kafka:9092''
   \<and> truthy (host (kafka_client
       (update_relation_data ''kafka'' ''9092'' (update_config ''kafka:9092'' harness_charm))))
   \<and> truthy (port (kafka_client
       (update_relation_data ''kafka'' ''9092'' (update_config ''kafka:9092'' harness_charm))))
   \<and> KafkaAvailableEvent \<noteq> RelationBrokenEvent
   \<and> valid_log_level
       (update_relation_data ''kafka'' ''9092'' (update_config ''kafka:9092'' harness_charm))
   \<and> length (split CHR '':'' ''kafka:9092'') = 2
   \<and> fst (emit KafkaAvailableEvent
       (update_relation_data ''kafka'' ''9092'' (update_config ''kafka:9092'' harness_charm))) =
       Inr ()
   \<and> status (snd (emit KafkaAvailableEvent
       (update_relation_data ''kafka'' ''9092'' (update_config ''kafka:9092'' harness_charm)))) =
       BlockedStatus ''Kafka cannot added via relation and via config at the same time''"
  using conflicting_sources
    [of "update_relation_data ''kafka'' ''9092'' (update_config ''kafka:9092'' harness_charm)"
        "''kafka:9092''" KafkaAvailableEvent]
  by (simp add: truthy_def)

text \<open>
  C6. When neither source is present (no static endpoint, or the empty string; host or
  port of the relation missing), resolution fails for any event and every handler leaves
  the unit Blocked. When the log level is valid, the failure is the one of no endpoint,
  and the unit is Blocked with the message
  "Not kafka-endpoint added. Kafka endpoint needs to be added via relation or via config".
\<close>

theorem no_endpoint:
  assumes "\<not> truthy (cfg_kafka_endpoint (config s))"
    and "\<not> truthy (host (kafka_client s)) \<or> \<not> truthy (port (kafka_client s))"
  shows "(\<exists>msg. fst (get_kafka_endpoint evo s) = Inl (CharmError msg))
       \<and> fst (emit ev s) = Inr ()
       \<and> (\<exists>msg. status (snd (emit ev s)) = BlockedStatus msg)
       \<and> (valid_log_level s \<longrightarrow>
            get_kafka_endpoint evo s =
              (Inl (CharmError
                 ''Not kafka-endpoint added. Kafka endpoint needs to be added via relation or via config''),
               s)
          \<and> status (snd (emit ev s)) =
              BlockedStatus
                ''Not kafka-endpoint added. Kafka endpoint needs to be added via relation or via config'')"
proof -
  let ?m = "''Not kafka-endpoint added. Kafka endpoint needs to be added via relation or via config''"
  let ?evo = "if ev = KafkaAvailableEvent then None else Some ev"
  have rel: "get_kafka_relation s e = None" for e
    using assms(2) by (auto simp: get_kafka_relation_def)
  obtain m1 s1 where f1: "get_kafka_endpoint evo s = (Inl (CharmError m1), s1)"
    using get_kafka_endpoint_neither [OF assms(1) rel] by blast
  obtain m3 s3 where f3: "get_kafka_endpoint ?evo s = (Inl (CharmError m3), s3)"
    using get_kafka_endpoint_neither [OF assms(1) rel] by blast
  have always: "fst (emit ev s) = Inr () \<and> (\<exists>msg. status (snd (emit ev s)) = BlockedStatus msg)"
    using emit_failed_status [OF f3] by blast
  have exact: "get_kafka_endpoint evo s = (Inl (CharmError ?m), s)
      \<and> status (snd (emit ev s)) = BlockedStatus ?m"
    if v: "valid_log_level s"
  proof -
    have r: "get_kafka_endpoint e s = (Inl (CharmError ?m), s)" for e
      using v assms(1) by (simp add: get_kafka_endpoint_absent rel)
    show ?thesis
      using emit_failed_status [OF r] r by simp
  qed
  show ?thesis
    using f1 always exact by simp
qed

theorem no_endpoint_witness:
  "\<not> truthy (cfg_kafka_endpoint (config harness_charm))
   \<and> \<not> truthy (host (kafka_client harness_charm))
   \<and> valid_log_level harness_charm
   \<and> fst (emit PebbleReadyEvent harness_charm) = Inr ()
   \<and> status (snd (emit PebbleReadyEvent harness_charm)) =
       BlockedStatus
         ''Not kafka-endpoint added. Kafka endpoint needs to be added via relation or via config''"
proof -
  have h: "\<not> truthy (host (kafka_client harness_charm))"
    by (simp add: harness_charm_def truthy_def)
  have c: "\<not> truthy (cfg_kafka_endpoint (config harness_charm))"
    by (simp add: truthy_def)
  show ?thesis
    using no_endpoint [of harness_charm None PebbleReadyEvent] h c by simp
qed

text \<open>
  C7. On the event that breaks the relation, \<^verbatim>\<open>_get_kafka_relation\<close> returns nothing, whatever
  host and port the relation still shows, and resolution has the outcome it has with the
  relation data erased. If the static endpoint is absent too, the handler ends with the
  unit Blocked: with the message of no endpoint when the log level is valid, with the one
  of the log level otherwise.
\<close>

theorem relation_broken_discards_relation:
  "get_kafka_relation s (Some RelationBrokenEvent) = None
   \<and> fst (get_kafka_endpoint (Some RelationBrokenEvent) s) =
       fst (get_kafka_endpoint (Some RelationBrokenEvent)
              (s\<lparr>kafka_client := \<lparr>host = None, port = None\<rparr>\<rparr>))
   \<and> (\<not> truthy (cfg_kafka_endpoint (config s)) \<longrightarrow>
        fst (emit RelationBrokenEvent s) = Inr ()
        \<and> status (snd (emit RelationBrokenEvent s)) =
            BlockedStatus
              (if valid_log_level s
               then ''Not kafka-endpoint added. Kafka endpoint needs to be added via relation or via config''
               else ''invalid value for log-level option''))"
proof -
  have rel: "get_kafka_relation s (Some RelationBrokenEvent) = None"
    by (simp add: get_kafka_relation_def)
  have same: "fst (get_kafka_endpoint (Some RelationBrokenEvent) s) =
       fst (get_kafka_endpoint (Some RelationBrokenEvent)
              (s\<lparr>kafka_client := \<lparr>host = None, port = None\<rparr>\<rparr>))"
    by (rule get_kafka_endpoint_depends [symmetric]) (simp_all add: get_kafka_relation_def)
  have blocked: "fst (emit RelationBrokenEvent s) = Inr ()
        \<and> status (snd (emit RelationBrokenEvent s)) =
            BlockedStatus
              (if valid_log_level s
               then ''Not kafka-endpoint added. Kafka endpoint needs to be added via relation or via config''
               else ''invalid value for log-level option'')"
    if absent: "\<not> truthy (cfg_kafka_endpoint (config s))"
  proof (cases "valid_log_level s")
    case True
    have "get_kafka_endpoint (Some RelationBrokenEvent) s =
        (Inl (CharmError
           ''Not kafka-endpoint added. Kafka endpoint needs to be added via relation or via config''),
         s)"
      using True absent rel by (simp add: get_kafka_endpoint_absent)
    then show ?thesis
      using True
      by (simp add: emit_def error_status_def on_db_relation_broken_failed)
  next
    case False
    then show ?thesis
      by (simp add: emit_def error_status_def
          on_db_relation_broken_failed [OF get_kafka_endpoint_bad_level [OF False]])
  qed
  show ?thesis
    using rel same blocked by blast
qed

theorem relation_broken_discards_relation_witness:
  "host (kafka_client (update_relation_data ''kafka'' ''9092'' harness_charm)) = Some ''kafka''
   \<and> port (kafka_client (update_relation_data ''kafka'' ''9092'' harness_charm)) = Some ''9092''
   \<and> \<not> truthy (cfg_kafka_endpoint (config (update_relation_data ''kafka'' ''9092'' harness_charm)))
   \<and> get_kafka_relation (update_relation_data ''kafka'' ''9092'' harness_charm)
       (Some ConfigChangedEvent) = Some ''kafka:9092''
   \<and> get_kafka_relation (update_relation_data ''kafka'' ''9092'' harness_charm)
       (Some RelationBrokenEvent) = None
   \<and> status (snd (emit RelationBrokenEvent (update_relation_data ''kafka'' ''9092'' harness_charm))) =
       BlockedStatus
         ''Not kafka-endpoint added. Kafka endpoint needs to be added via relation or via config''"
proof -
  have c: "\<not> truthy (cfg_kafka_endpoint (config (update_relation_data ''kafka'' ''9092'' harness_charm)))"
    by (simp add: truthy_def)
  show ?thesis
    using relation_broken_discards_relation [of "update_relation_data ''kafka'' ''9092'' harness_charm"] c
    by simp
qed




text \<open>
  C9, as the code has it. When the endpoint resolves and the supervisor is reachable, the
  four handlers that submit a layer (configuration changed, relation broken and dependency
  available through the apply step, supervisor ready directly) submit, at every attempt,
  the layer whose service \<^verbatim>\<open>kafka-exporter\<close> has the command
  \<^verbatim>\<open>bin/kafka_exporter --kafka.server=\<close> followed by the resolved endpoint and the startup
  policy \<^verbatim>\<open>enabled\<close>, with a TCP check of level ready on port 9308, and ask for a replan;
  when the supervisor accepts the plan (within the three attempts of the apply step; at the
  single attempt of the ready supervisor), the handler returns with the unit status Active
  and no message. The handler of a status poll submits no layer: the status becomes Active
  with no message when the service is in the plan and runs, and the Blocked one of the
  failed check otherwise.
\<close>

theorem reachable_supervisor_active:
  assumes "fst (get_kafka_endpoint (if ev = KafkaAvailableEvent then None else Some ev) s) = Inr ep"
    and "can_connect (container s)"
  shows "(if ev = UpdateStatusEvent
          then emit ev s =
                 (Inr (),
                  s\<lparr>kafka_endpoint := Some ep,
                    container :=
                      (if pebble_service_name \<in> fst ` set (plan_services (container s))
                          \<and> pebble_service_name \<notin> set (running (container s))
                       then stop container_name (container s) else container s),
                    status :=
                      (if pebble_service_name \<in> fst ` set (plan_services (container s))
                       then if pebble_service_name \<in> set (running (container s))
                            then ActiveStatus []
                            else BlockedStatus (pebble_service_name @ '' service is not running'')
                       else BlockedStatus
                              (pebble_service_name @ '' service not configured yet''))\<rparr>)
          else calls (container (snd (emit ev s))) =
                 calls (container s) @
                 concat (replicate
                           (if ev = PebbleReadyEvent then 1
                            else min 3 (Suc (failures (container s))))
                           [AddLayer ''kafka-exporter''
                              (pebble_layer (s\<lparr>kafka_endpoint := Some ep\<rparr>)),
                            Replan]) @
                 (if ev = KafkaAvailableEvent \<and> 3 \<le> failures (container s)
                      \<and> pebble_service_name \<notin> set (running (container s))
                  then [Stop container_name] else [])
             \<and> (failures (container s) < (if ev = PebbleReadyEvent then 1 else 3) \<longrightarrow>
                  fst (emit ev s) = Inr ()
                \<and> status (snd (emit ev s)) = ActiveStatus []
                \<and> kafka_endpoint (snd (emit ev s)) = Some ep))
     \<and> lyr_services (pebble_layer (s\<lparr>kafka_endpoint := Some ep\<rparr>)) =
         [(''kafka-exporter'',
           \<lparr>svc_override = ''replace'', svc_summary = ''kafka-exporter service'',
            svc_command = ''bin/kafka_exporter --kafka.server='' @ ep,
            svc_startup = ''enabled''\<rparr>)]
     \<and> lyr_checks (pebble_layer (s\<lparr>kafka_endpoint := Some ep\<rparr>)) =
         [(''online'', \<lparr>chk_override = ''replace'', chk_level = ''ready'', chk_tcp_port = 9308\<rparr>)]"
proof -
  let ?s2 = "s\<lparr>kafka_endpoint := Some ep\<rparr>"
  have layer: "lyr_services (pebble_layer ?s2) =
         [(''kafka-exporter'',
           \<lparr>svc_override = ''replace'', svc_summary = ''kafka-exporter service'',
            svc_command = ''bin/kafka_exporter --kafka.server='' @ ep,
            svc_startup = ''enabled''\<rparr>)]
     \<and> lyr_checks (pebble_layer ?s2) =
         [(''online'', \<lparr>chk_override = ''replace'', chk_level = ''ready'', chk_tcp_port = 9308\<rparr>)]"
    by (simp add: pebble_layer_def pebble_service_name_def format_str_def PORT_def)
  have c: "can_connect (container ?s2)"
    using assms(2) by simp
  note run = configure_service_run [OF c, of ev 3] configure_service_frame [of ev 3 ?s2]
  have handler: "if ev = UpdateStatusEvent
          then emit ev s =
                 (Inr (),
                  s\<lparr>kafka_endpoint := Some ep,
                    container :=
                      (if pebble_service_name \<in> fst ` set (plan_services (container s))
                          \<and> pebble_service_name \<notin> set (running (container s))
                       then stop container_name (container s) else container s),
                    status :=
                      (if pebble_service_name \<in> fst ` set (plan_services (container s))
                       then if pebble_service_name \<in> set (running (container s))
                            then ActiveStatus []
                            else BlockedStatus (pebble_service_name @ '' service is not running'')
                       else BlockedStatus
                              (pebble_service_name @ '' service not configured yet''))\<rparr>)
          else calls (container (snd (emit ev s))) =
                 calls (container s) @
                 concat (replicate
                           (if ev = PebbleReadyEvent then 1
                            else min 3 (Suc (failures (container s))))
                           (attempt ?s2)) @
                 (if ev = KafkaAvailableEvent \<and> 3 \<le> failures (container s)
                      \<and> pebble_service_name \<notin> set (running (container s))
                  then [Stop container_name] else [])
             \<and> (failures (container s) < (if ev = PebbleReadyEvent then 1 else 3) \<longrightarrow>
                  fst (emit ev s) = Inr ()
                \<and> status (snd (emit ev s)) = ActiveStatus []
                \<and> kafka_endpoint (snd (emit ev s)) = Some ep)"
  proof (cases ev)
    case KafkaAvailableEvent
    then have r: "get_kafka_endpoint None s = (Inr ep, s)"
      using assms(1) by (simp add: resolved_state)
    show ?thesis
      using KafkaAvailableEvent on_kafka_available_run [OF r assms(2), of ev]
      by (simp add: emit_def)
  next
    case PebbleReadyEvent
    then have r: "get_kafka_endpoint (Some ev) s = (Inr ep, s)"
      using assms(1) by (simp add: resolved_state)
    have "fst (emit ev s) = Inr () \<and> status (snd (emit ev s)) = ActiveStatus []
        \<and> kafka_endpoint (snd (emit ev s)) = Some ep"
      if f: "failures (container s) = 0"
      using PebbleReadyEvent on_kafka_exporter_pebble_ready_resolved [OF r f]
      by (simp add: emit_def)
    then show ?thesis
      using PebbleReadyEvent on_kafka_exporter_pebble_ready_calls [OF r]
      by (simp add: emit_def)
  next
    case ConfigChangedEvent
    then have r: "get_kafka_endpoint (Some ev) s = (Inr ep, s)"
      using assms(1) by (simp add: resolved_state)
    show ?thesis
      using ConfigChangedEvent run on_config_changed_resolved [OF r] by (simp add: emit_def)
  next
    case UpdateStatusEvent
    then have r: "get_kafka_endpoint (Some ev) s = (Inr ep, s)"
      using assms(1) by (simp add: resolved_state)
    show ?thesis
    proof (cases "pebble_service_name \<in> fst ` set (plan_services (container s))")
      case False
      then show ?thesis
        using UpdateStatusEvent on_update_status_not_configured [OF r assms(2)]
        by (simp add: emit_def)
    next
      case True
      then show ?thesis
        using UpdateStatusEvent on_update_status_active [OF r assms(2) True]
          on_update_status_not_running [OF r assms(2) True]
        by (cases "pebble_service_name \<in> set (running (container s))")
          (simp_all add: emit_def)
    qed
  next
    case RelationBrokenEvent
    then have r: "get_kafka_endpoint (Some ev) s = (Inr ep, s)"
      using assms(1) by (simp add: resolved_state)
    show ?thesis
      using RelationBrokenEvent run on_db_relation_broken_resolved [OF r]
      by (simp add: emit_def)
  qed
  show ?thesis
    using handler [unfolded attempt_def] layer by (rule conjI)
qed

theorem reachable_supervisor_active_witness:
  "fst (get_kafka_endpoint None
          (update_relation_data ''kafka'' ''9092'' harness_charm)) = Inr ''kafka:9092''
   \<and> can_connect (container (update_relation_data ''kafka'' ''9092'' harness_charm))
   \<and> failures (container (update_relation_data ''kafka'' ''9092'' harness_charm)) < 3
   \<and> fst (emit KafkaAvailableEvent (update_relation_data ''kafka'' ''9092'' harness_charm)) = Inr ()
   \<and> status (snd (emit KafkaAvailableEvent (update_relation_data ''kafka'' ''9092'' harness_charm))) =
       ActiveStatus []
   \<and> calls (container (snd (emit KafkaAvailableEvent
        (update_relation_data ''kafka'' ''9092'' harness_charm)))) =
       [AddLayer ''kafka-exporter''
          (pebble_layer ((update_relation_data ''kafka'' ''9092'' harness_charm)
                           \<lparr>kafka_endpoint := Some ''kafka:9092''\<rparr>)),
        Replan]
   \<and> map (svc_command \<circ> snd)
       (lyr_services (pebble_layer ((update_relation_data ''kafka'' ''9092'' harness_charm)
                                      \<lparr>kafka_endpoint := Some ''kafka:9092''\<rparr>))) =
       [''bin/kafka_exporter --kafka.server=kafka:9092'']"
proof -
  let ?s = "update_relation_data ''kafka'' ''9092'' harness_charm"
  have a: "\<not> truthy (cfg_kafka_endpoint (config ?s))"
    by (simp add: truthy_def)
  have r: "fst (get_kafka_endpoint (if KafkaAvailableEvent = KafkaAvailableEvent then None
                                     else Some KafkaAvailableEvent) ?s) = Inr ''kafka:9092''"
    by (simp add: get_kafka_endpoint_absent [OF _ a])
  have c: "can_connect (container ?s)"
    by simp
  have f: "failures (container ?s) = 0" and t: "calls (container ?s) = []"
    by (simp_all add: failures_def update_relation_data_def harness_charm_def
        harness_container_def)
  show ?thesis
    using reachable_supervisor_active [OF r c] r c f t by simp
qed

text \<open>
  C9, as the claim states it, fails. A relation is broken while the static endpoint
  resolves and the supervisor is reachable, but \<^verbatim>\<open>replan\<close> raises \<^verbatim>\<open>ChangeError\<close> three
  times: the status is left as it was, not Active. And a status poll that finds the
  endpoint resolved and the supervisor reachable, but the service not yet in the plan,
  ends Blocked and submits nothing.
\<close>

theorem reachable_not_active_counterexample:
  "can_connect (container (set_replan_results
       [Some ''cannot start service'', Some ''cannot start service'', Some ''cannot start service'']
       (update_config ''kafka:9092'' harness_charm)))
   \<and> fst (get_kafka_endpoint (Some RelationBrokenEvent) (set_replan_results
       [Some ''cannot start service'', Some ''cannot start service'', Some ''cannot start service'']
       (update_config ''kafka:9092'' harness_charm))) = Inr ''kafka:9092''
   \<and> status (snd (emit RelationBrokenEvent (set_replan_results
       [Some ''cannot start service'', Some ''cannot start service'', Some ''cannot start service'']
       (update_config ''kafka:9092'' harness_charm)))) = MaintenanceStatus []
   \<and> can_connect (container (update_config ''kafka:9092'' harness_charm))
   \<and> fst (get_kafka_endpoint (Some UpdateStatusEvent) (update_config ''kafka:9092'' harness_charm)) =
       Inr ''kafka:9092''
   \<and> status (snd (emit UpdateStatusEvent (update_config ''kafka:9092'' harness_charm))) =
       BlockedStatus ''kafka-exporter service not configured yet''
   \<and> calls (container (snd (emit UpdateStatusEvent (update_config ''kafka:9092'' harness_charm)))) =
       []"
proof -
  let ?x = "set_replan_results
       [Some ''cannot start service'', Some ''cannot start service'', Some ''cannot start service'']
       (update_config ''kafka:9092'' harness_charm)"
  let ?y = "update_config ''kafka:9092'' harness_charm"
  have rx: "get_kafka_endpoint e ?x = (Inr ''kafka:9092'', ?x)" for e
    by (simp add: get_kafka_endpoint_static [where k = "''kafka:9092''"])
  have ry: "get_kafka_endpoint e ?y = (Inr ''kafka:9092'', ?y)" for e
    by (simp add: get_kafka_endpoint_static [where k = "''kafka:9092''"])
  have cx: "can_connect (container (?x\<lparr>kafka_endpoint := Some ''kafka:9092''\<rparr>))"
    by (simp add: set_replan_results_def update_config_def harness_charm_def
        harness_container_def can_connect_def)
  have fx: "failures (container ?x) = 3" and sx: "status ?x = MaintenanceStatus []"
    by (simp_all add: failures_def set_replan_results_def update_config_def harness_charm_def)
  have cy: "can_connect (container ?y)"
    by simp
  have py: "pebble_service_name \<notin> fst ` set (plan_services (container ?y))"
    and ty: "calls (container ?y) = []"
    by (simp_all add: update_config_def harness_charm_def harness_container_def)
  have broken: "status (snd (emit RelationBrokenEvent ?x)) = MaintenanceStatus []"
    using configure_service_run [OF cx, of RelationBrokenEvent 3]
    by (simp add: emit_def on_db_relation_broken_resolved [OF rx] fx sx)
  have poll: "emit UpdateStatusEvent ?y =
      (Inr (), ?y\<lparr>kafka_endpoint := Some ''kafka:9092'',
                 status := BlockedStatus (pebble_service_name @ '' service not configured yet'')\<rparr>)"
    by (simp add: emit_def on_update_status_not_configured [OF ry cy py])
  show ?thesis
    by (simp add: broken poll rx ry ty pebble_service_name_def)
qed

text \<open>
  C10. A static option \<^verbatim>\<open>kafka-endpoint\<close> that is present but the empty string counts as
  absent, not as malformed: with a valid log level, resolution yields the relation endpoint
  when there is one and fails with the error of no endpoint otherwise; it never raises the
  error of a wrong format, and its outcome is the one it has with the option unset.
\<close>

theorem empty_static_endpoint_is_absent:
  assumes "cfg_kafka_endpoint (config s) = Some []" and "valid_log_level s"
  shows "get_kafka_endpoint ev s =
           (case get_kafka_relation s ev of
              None \<Rightarrow>
                (Inl (CharmError
                   ''Not kafka-endpoint added. Kafka endpoint needs to be added via relation or via config''),
                 s)
            | Some r \<Rightarrow> (Inr r, s))
       \<and> fst (get_kafka_endpoint ev s) \<noteq>
           Inl (CharmError
                  ''Wrong kafka-endpoint format: value must be in the format <host>:<port>'')
       \<and> fst (get_kafka_endpoint ev s) =
           fst (get_kafka_endpoint ev (s\<lparr>config := (config s)\<lparr>cfg_kafka_endpoint := None\<rparr>\<rparr>))"
proof -
  let ?s' = "s\<lparr>config := (config s)\<lparr>cfg_kafka_endpoint := None\<rparr>\<rparr>"
  have absent: "\<not> truthy (cfg_kafka_endpoint (config s))"
    using assms(1) by (simp add: truthy_def)
  have absent': "\<not> truthy (cfg_kafka_endpoint (config ?s'))"
    by (simp add: truthy_def)
  have level': "valid_log_level ?s'"
    using assms(2) by (simp add: valid_log_level_def)
  have relation': "get_kafka_relation ?s' ev = get_kafka_relation s ev"
    by (simp add: get_kafka_relation_def)
  show ?thesis
    by (simp add: get_kafka_endpoint_absent [OF assms(2) absent]
        get_kafka_endpoint_absent [OF level' absent'] relation' split: option.splits)
qed

theorem empty_static_endpoint_is_absent_witness:
  "cfg_kafka_endpoint (config (update_relation_data ''kafka'' ''9092'' (update_config [] harness_charm)))
     = Some []
   \<and> valid_log_level (update_relation_data ''kafka'' ''9092'' (update_config [] harness_charm))
   \<and> get_kafka_endpoint (Some ConfigChangedEvent)
       (update_relation_data ''kafka'' ''9092'' (update_config [] harness_charm)) =
       (Inr ''kafka:9092'', update_relation_data ''kafka'' ''9092'' (update_config [] harness_charm))"
  using empty_static_endpoint_is_absent
    [of "update_relation_data ''kafka'' ''9092'' (update_config [] harness_charm)"
        "Some ConfigChangedEvent"]
  by simp

end
